theory Spec2Isabelle
  imports Main "HOL-Library.Option_ord" "HOL-Library.Product_Lexorder" "HOL-Library.Multiset"
begin

section \<open>JavaScript values and strings\<close>

text \<open>
  The server (server.js) reads the fields of a JSON request body without checking their
  types, except through \<^verbatim>\<open>typeof x !== 'string'\<close>, comparison with \<^verbatim>\<open>undefined\<close>
  and truthiness.  A field is therefore a JSON value, or \<^verbatim>\<open>undefined\<close> when the
  body does not have it.  An object carries its fields; an array is one constructor, as
  the handlers and the casts only ask whether a value is one.  A string is a list of code
  units; the model has the code units below 256.
\<close>

datatype jsval =
    JUndefined | JNull | JBool bool | JNum int | JStr string | JArr
  | JObj "(string \<times> jsval) list"

fun truthy :: "jsval \<Rightarrow> bool" where
  "truthy JUndefined = False"
| "truthy JNull = False"
| "truthy (JBool b) = b"
| "truthy (JNum n) = (n \<noteq> 0)"
| "truthy (JStr s) = (s \<noteq> [])"
| "truthy JArr = True"
| "truthy (JObj fs) = True"

text \<open>\<^verbatim>\<open>v.k\<close> for a value that is not null or undefined.  Of two fields with one
  name, \<^verbatim>\<open>JSON.parse\<close> keeps the last.\<close>

definition getField :: "jsval \<Rightarrow> string \<Rightarrow> jsval" where
  "getField v k =
     (case v of
        JObj fs \<Rightarrow> (case map_of (rev fs) k of Some x \<Rightarrow> x | None \<Rightarrow> JUndefined)
      | _ \<Rightarrow> JUndefined)"

text \<open>The white space and line terminators that \<^verbatim>\<open>String.prototype.trim\<close> removes,
  among the code units below 256: TAB, LF, VT, FF, CR, SP and NBSP.\<close>

definition isWhiteSpace :: "char \<Rightarrow> bool" where
  "isWhiteSpace c = (of_char c \<in> {9, 10, 11, 12, 13, 32, 160 :: nat})"

definition trim :: "string \<Rightarrow> string" where
  "trim s = rev (dropWhile isWhiteSpace (rev (dropWhile isWhiteSpace s)))"

text \<open>\<^verbatim>\<open>input.replace(/[<>]/g, '')\<close>\<close>

definition removeAngleBrackets :: "string \<Rightarrow> string" where
  "removeAngleBrackets s = filter (\<lambda>c. c \<noteq> CHR ''<'' \<and> c \<noteq> CHR ''>'') s"

text \<open>\<^verbatim>\<open>s.split(sep)\<close> for a separator of one code unit.\<close>

fun split :: "char \<Rightarrow> string \<Rightarrow> string list" where
  "split sep [] = [[]]"
| "split sep (c # cs) =
     (if c = sep then [] # split sep cs
      else (case split sep cs of [] \<Rightarrow> [[c]] | p # ps \<Rightarrow> (c # p) # ps))"

definition startsWith :: "string \<Rightarrow> string \<Rightarrow> bool" where
  "startsWith s p = (take (length p) s = p)"

text \<open>
  \<^verbatim>\<open>Buffer.from(s)\<close>: the UTF-8 bytes of a string of code units below 256, and
  \<^verbatim>\<open>.toString('base64')\<close>.
\<close>

definition utf8 :: "string \<Rightarrow> nat list" where
  "utf8 s = concat (map (\<lambda>c. let n = of_char c in
              if n < 128 then [n] else [192 + n div 64, 128 + n mod 64]) s)"

definition base64Digit :: "nat \<Rightarrow> char" where
  "base64Digit n =
     (''ABCDEFGHIJKLMNOPQRSTUVWXYZabcdefghijklmnopqrstuvwxyz0123456789+/'') ! (n mod 64)"

fun base64 :: "nat list \<Rightarrow> string" where
  "base64 [] = []"
| "base64 [a] = [base64Digit (a div 4), base64Digit (a mod 4 * 16), CHR ''='', CHR ''='']"
| "base64 [a, b] =
     [base64Digit (a div 4), base64Digit (a mod 4 * 16 + b div 16), base64Digit (b mod 16 * 4),
      CHR ''='']"
| "base64 (a # b # c # bytes) =
     [base64Digit (a div 4), base64Digit (a mod 4 * 16 + b div 16),
      base64Digit (b mod 16 * 4 + c div 64), base64Digit (c mod 64)] @ base64 bytes"

section \<open>The packages the server calls\<close>

text \<open>
  A field of a stored object: missing, null, or a value.  The preferences of a profile
  are a nested object of the schema with two such fields.
\<close>

datatype 'a field = Missing | Null | Value 'a

record prefs =
  theme :: "string field"
  emailNotifications :: "bool field"

text \<open>
  The identity that \<^verbatim>\<open>jwt.verify\<close> decodes from a token: the subject and the name
  and email claims (absent, or a string).
\<close>

record user =
  sub :: string
  name :: "string option"
  email :: "string option"

text \<open>
  The server's dependencies are parameters of the model:
  \<^item> \<open>xss\<close>: the filter of the xss package;
  \<^item> \<open>parseURL\<close>: whether \<^verbatim>\<open>new URL(url)\<close> returns (it throws otherwise);
  \<^item> \<open>jwt_verify\<close>: \<^verbatim>\<open>jwt.verify\<close> with the issuer's keys, audience and RS256:
    the decoded token, or None for an error;
  \<^item> \<open>castObjectId\<close>: Mongoose's cast of the \<^verbatim>\<open>:id\<close> path parameter to an
    ObjectId, None for a CastError;
  \<^item> \<open>omitUndefined\<close>: what Mongoose does with a key of an update whose value is
    \<^verbatim>\<open>undefined\<close>.  Mongoose 5 writes null unless its option omitUndefined is set;
    Mongoose 6 and later always drop the key, which leaves the stored field as it was.
    The package version is not part of the sources;
  \<^item> \<open>setDefaultsOnInsert\<close>: whether an upsert that inserts applies the schema's
    defaults (off by default in Mongoose 5, on from Mongoose 6);
  \<^item> \<open>numberToString\<close>: \<^verbatim>\<open>Number.prototype.toString\<close>, which Mongoose's cast to
    String calls on a number;
  \<^item> \<open>castPrimitivePreferences\<close>: what Mongoose makes of a truthy value that is not
    a plain object when an update sets the nested path \<open>preferences\<close> to it: the
    preferences it stores, or None for an error.
\<close>

record lib =
  xss :: "string \<Rightarrow> string"
  parseURL :: "string \<Rightarrow> bool"
  jwt_verify :: "string \<Rightarrow> user option"
  castObjectId :: "string \<Rightarrow> nat option"
  omitUndefined :: bool
  setDefaultsOnInsert :: bool
  numberToString :: "int \<Rightarrow> string"
  castPrimitivePreferences :: "jsval \<Rightarrow> prefs option"

text \<open>
  Mongoose's cast to the schema type Boolean: the values it converts to true and to
  false, null and undefined pass, everything else raises a CastError (None).
\<close>

fun castBoolean :: "jsval \<Rightarrow> jsval option" where
  "castBoolean (JBool b) = Some (JBool b)"
| "castBoolean (JStr s) =
     (if s = ''true'' \<or> s = ''1'' \<or> s = ''yes'' then Some (JBool True)
      else if s = ''false'' \<or> s = ''0'' \<or> s = ''no'' then Some (JBool False)
      else None)"
| "castBoolean (JNum n) =
     (if n = 1 then Some (JBool True) else if n = 0 then Some (JBool False) else None)"
| "castBoolean JUndefined = Some JUndefined"
| "castBoolean JNull = Some JNull"
| "castBoolean JArr = None"
| "castBoolean (JObj fs) = None"

text \<open>
  Mongoose's cast to the schema type String: null and undefined pass, an object with a
  non-empty string \<^verbatim>\<open>_id\<close> is cast to that id, a string, a number or a boolean to
  its \<^verbatim>\<open>toString()\<close>, and an array or any other object raises a CastError (None).
\<close>

definition castString :: "lib \<Rightarrow> jsval \<Rightarrow> string field option" where
  "castString L v =
     (case v of
        JUndefined \<Rightarrow> Some Missing
      | JNull \<Rightarrow> Some Null
      | JStr s \<Rightarrow> Some (Value s)
      | JNum n \<Rightarrow> Some (Value (numberToString L n))
      | JBool b \<Rightarrow> Some (Value (if b then ''true'' else ''false''))
      | JArr \<Rightarrow> None
      | JObj fs \<Rightarrow>
          (case getField v ''_id'' of
             JStr s \<Rightarrow> if s \<noteq> [] then Some (Value s) else None
           | _ \<Rightarrow> None))"

text \<open>The Boolean cast, as a stored field.\<close>

definition castBooleanField :: "jsval \<Rightarrow> bool field option" where
  "castBooleanField v =
     (case castBoolean v of
        None \<Rightarrow> None
      | Some (JBool b) \<Rightarrow> Some (Value b)
      | Some JNull \<Rightarrow> Some Null
      | Some _ \<Rightarrow> Some Missing)"

text \<open>The first document that matches is the one an update or a delete touches.\<close>

fun updateFirst :: "('a \<Rightarrow> bool) \<Rightarrow> ('a \<Rightarrow> 'a) \<Rightarrow> 'a list \<Rightarrow> 'a list" where
  "updateFirst P f [] = []"
| "updateFirst P f (x # xs) = (if P x then f x # xs else x # updateFirst P f xs)"

fun deleteFirst :: "('a \<Rightarrow> bool) \<Rightarrow> 'a list \<Rightarrow> 'a list" where
  "deleteFirst P [] = []"
| "deleteFirst P (x # xs) = (if P x then xs else x # deleteFirst P xs)"

section \<open>The collections\<close>

text \<open>
  The Task and UserProfile models.  A Date is a number of milliseconds; a field that is
  null or missing is None.  \<open>task_id\<close> is the document's \<^verbatim>\<open>_id\<close>.
\<close>

record task =
  task_id :: nat
  title :: string
  completed :: "bool option"
  completedAt :: "nat option"
  userId :: string

record userProfile =
  profile_userId :: string
  displayName :: "string option"
  avatar :: "string option"
  bio :: "string option"
  preferences :: "prefs option"
  createdAt :: "nat option"
  updatedAt :: "nat option"

text \<open>The database: both collections, and the next ObjectId a new task gets.\<close>

record db =
  tasks :: "task list"
  profiles :: "userProfile list"
  nextId :: nat

definition emptyDb :: db where
  "emptyDb = \<lparr>tasks = [], profiles = [], nextId = 0\<rparr>"

text \<open>
  MongoDB keeps \<^verbatim>\<open>_id\<close> unique in a collection.  \<open>wellFormed\<close> adds that the ids in
  use are below the supply; every handler keeps it (\<open>app_wellFormed\<close> below).
\<close>

definition idsUnique :: "db \<Rightarrow> bool" where
  "idsUnique s = distinct (map task_id (tasks s))"

definition wellFormed :: "db \<Rightarrow> bool" where
  "wellFormed s = (idsUnique s \<and> list_all (\<lambda>t. task_id t < nextId s) (tasks s))"

text \<open>The completion invariant of a stored task: completed is true exactly when
  completedAt is not null.\<close>

definition completionInv :: "task \<Rightarrow> bool" where
  "completionInv t = ((completed t = Some True) = (completedAt t \<noteq> None))"

section \<open>Requests and responses\<close>

text \<open>
  \<^verbatim>\<open>req.body\<close> after \<^verbatim>\<open>express.json()\<close>: the fields the handlers read, each a
  JSON value or undefined.
\<close>

record body =
  body_title :: jsval
  body_completed :: jsval
  body_displayName :: jsval
  body_avatar :: jsval
  body_bio :: jsval
  body_preferences :: jsval

definition noBody :: body where
  "noBody = \<lparr>body_title = JUndefined, body_completed = JUndefined, body_displayName = JUndefined,
     body_avatar = JUndefined, body_bio = JUndefined, body_preferences = JUndefined\<rparr>"

datatype payload =
    Error string
  | Message string
  | Text string
  | TaskDoc "task option"
  | TaskList "task list"
  | ProfileDoc userProfile
  | HealthDoc nat

datatype response = Response (status: nat) (json: payload)

definition internalError :: response where
  "internalError = Response 500 (Error ''Internal server error'')"

section \<open>Input sanitization and validation\<close>

definition sanitizeInput :: "(string \<Rightarrow> string) \<Rightarrow> jsval \<Rightarrow> string" where
  "sanitizeInput xssFilter input =
     (case input of JStr s \<Rightarrow> xssFilter (trim (removeAngleBrackets s)) | _ \<Rightarrow> [])"

definition validateTitle :: "jsval \<Rightarrow> bool" where
  "validateTitle v =
     (case v of
        JStr s \<Rightarrow> (let trimmed = trim s in length trimmed > 0 \<and> length trimmed \<le> 100)
      | _ \<Rightarrow> False)"

definition validateDisplayName :: "jsval \<Rightarrow> bool" where
  "validateDisplayName v =
     (case v of
        JStr s \<Rightarrow> (let trimmed = trim s in length trimmed > 0 \<and> length trimmed \<le> 50)
      | _ \<Rightarrow> False)"

definition validateBio :: "jsval \<Rightarrow> bool" where
  "validateBio v = (case v of JStr s \<Rightarrow> length s \<le> 500 | _ \<Rightarrow> True)"

definition validateAvatarUrl :: "(string \<Rightarrow> bool) \<Rightarrow> jsval \<Rightarrow> bool" where
  "validateAvatarUrl urlParses v =
     (case v of
        JStr s \<Rightarrow> (if s = [] then True else if length s > 500 then False else urlParses s)
      | _ \<Rightarrow> True)"

section \<open>The authentication middleware\<close>

text \<open>Left: the response that ends the request.  Right: \<^verbatim>\<open>req.user\<close>, for \<^verbatim>\<open>next()\<close>.\<close>

definition jwtCheck :: "lib \<Rightarrow> string option \<Rightarrow> response + user" where
  "jwtCheck L authHeader =
     (case authHeader of
        None \<Rightarrow> Inl (Response 401 (Error ''Access token is required''))
      | Some h \<Rightarrow>
          if h = [] \<or> \<not> startsWith h ''Bearer ''
          then Inl (Response 401 (Error ''Access token is required''))
          else (case split CHR '' '' h of
                  _ # token # _ \<Rightarrow>
                    (case jwt_verify L token of
                       None \<Rightarrow> Inl (Response 401 (Error ''Invalid token''))
                     | Some decoded \<Rightarrow> Inr decoded)
                | _ \<Rightarrow> Inl (Response 401 (Error ''Invalid token''))))"

section \<open>Profile endpoints\<close>

definition isAlphaNum :: "char \<Rightarrow> bool" where
  "isAlphaNum c = (let n = (of_char c :: nat) in
     (97 \<le> n \<and> n \<le> 122) \<or> (65 \<le> n \<and> n \<le> 90) \<or> (48 \<le> n \<and> n \<le> 57))"

definition generateShapesAvatar :: "string \<Rightarrow> string" where
  "generateShapesAvatar uid =
     (let seed = take 10 (filter isAlphaNum (base64 (utf8 uid)));
          backgroundColor = ''0f0f23'';
          primaryColor = ''6366f1''
      in ''https://api.dicebear.com/7.x/shapes/svg?seed='' @ seed @
         ''&backgroundColor='' @ backgroundColor @ ''&primaryColor='' @ primaryColor)"

definition defaultPreferences :: prefs where
  "defaultPreferences = \<lparr>theme = Value ''dark'', emailNotifications = Value True\<rparr>"

text \<open>
  The document Mongoose builds from a stored profile at time \<open>now\<close>: a path that is
  missing gets the schema's default (the preferences' fields, and \<^verbatim>\<open>Date.now\<close> for
  createdAt and updatedAt); a path that is null stays null.  It is the document the
  handlers answer with.
\<close>

definition withDefault :: "'a \<Rightarrow> 'a field \<Rightarrow> 'a field" where
  "withDefault d x = (case x of Missing \<Rightarrow> Value d | _ \<Rightarrow> x)"

definition hydrate :: "nat \<Rightarrow> userProfile \<Rightarrow> userProfile" where
  "hydrate now p =
     p\<lparr>preferences :=
         (case preferences p of
            None \<Rightarrow> Some defaultPreferences
          | Some q \<Rightarrow> Some \<lparr>theme = withDefault ''dark'' (theme q),
                            emailNotifications = withDefault True (emailNotifications q)\<rparr>),
       createdAt := (case createdAt p of None \<Rightarrow> Some now | Some t \<Rightarrow> Some t),
       updatedAt := (case updatedAt p of None \<Rightarrow> Some now | Some t \<Rightarrow> Some t)\<rparr>"

text \<open>\<^verbatim>\<open>req.user.name || req.user.email || 'User'\<close>\<close>

definition defaultDisplayName :: "user \<Rightarrow> string" where
  "defaultDisplayName u =
     (case name u of
        Some n \<Rightarrow> if n \<noteq> [] then n
                  else (case email u of Some e \<Rightarrow> if e \<noteq> [] then e else ''User'' | None \<Rightarrow> ''User'')
      | None \<Rightarrow> (case email u of Some e \<Rightarrow> if e \<noteq> [] then e else ''User'' | None \<Rightarrow> ''User''))"

text \<open>
  GET /profile.  \<^verbatim>\<open>profile.save()\<close> validates the document: \<open>userId\<close> is required,
  and Mongoose's required validator rejects the empty string, which the handler answers
  with 500.
\<close>

definition getProfile :: "lib \<Rightarrow> nat \<Rightarrow> user \<Rightarrow> db \<Rightarrow> response \<times> db" where
  "getProfile L now u s =
     (case find (\<lambda>p. profile_userId p = sub u) (profiles s) of
        Some profile \<Rightarrow> (Response 200 (ProfileDoc (hydrate now profile)), s)
      | None \<Rightarrow>
          if sub u = [] then (internalError, s)
          else let profile = \<lparr>profile_userId = sub u,
                     displayName = Some (defaultDisplayName u),
                     avatar = Some (generateShapesAvatar (sub u)),
                     bio = None,
                     preferences = Some defaultPreferences,
                     createdAt = Some now,
                     updatedAt = Some now\<rparr>
               in (Response 200 (ProfileDoc profile), s\<lparr>profiles := profiles s @ [profile]\<rparr>))"

text \<open>
  Mongoose's cast of the value that \<^verbatim>\<open>$set\<close> gives to the nested path
  \<open>preferences\<close>.  Of a plain object it casts the two fields of the schema, each with
  the cast of its type, and drops every other field; an error in either is an error of
  the update.  The stored object has the fields the value has.
\<close>

definition castPreferences :: "lib \<Rightarrow> jsval \<Rightarrow> prefs option" where
  "castPreferences L v =
     (case v of
        JObj fs \<Rightarrow>
          (case (castString L (getField v ''theme''),
                 castBooleanField (getField v ''emailNotifications'')) of
             (Some t, Some e) \<Rightarrow> Some \<lparr>theme = t, emailNotifications = e\<rparr>
           | _ \<Rightarrow> None)
      | _ \<Rightarrow> castPrimitivePreferences L v)"

text \<open>
  \<^verbatim>\<open>if (preferences) updateData.preferences = preferences\<close>, after the cast: None
  for a CastError, \<open>Some None\<close> when \<open>updateData\<close> has no preferences, and
  \<open>Some (Some q)\<close> when it sets them to \<open>q\<close>.
\<close>

definition preferencesUpdate :: "lib \<Rightarrow> jsval \<Rightarrow> prefs option option" where
  "preferencesUpdate L v =
     (if truthy v then (case castPreferences L v of None \<Rightarrow> None | Some q \<Rightarrow> Some (Some q))
      else Some None)"

text \<open>The \<^verbatim>\<open>updateData\<close> of PUT /profile, applied to a stored profile; \<open>q\<close> is
  what it has for the preferences.\<close>

definition applyProfileUpdate ::
  "lib \<Rightarrow> nat \<Rightarrow> body \<Rightarrow> prefs option \<Rightarrow> userProfile \<Rightarrow> userProfile" where
  "applyProfileUpdate L now b q p =
     p\<lparr>updatedAt := Some now,
       displayName := (if body_displayName b \<noteq> JUndefined
                       then Some (sanitizeInput (xss L) (body_displayName b)) else displayName p),
       avatar := (if body_avatar b \<noteq> JUndefined
                  then Some (sanitizeInput (xss L) (body_avatar b)) else avatar p),
       bio := (if body_bio b \<noteq> JUndefined
               then Some (sanitizeInput (xss L) (body_bio b)) else bio p),
       preferences := (case q of Some x \<Rightarrow> Some x | None \<Rightarrow> preferences p)\<rparr>"

text \<open>The document an upsert starts from when the user has no profile.\<close>

definition insertedProfile :: "lib \<Rightarrow> nat \<Rightarrow> string \<Rightarrow> userProfile" where
  "insertedProfile L now uid =
     \<lparr>profile_userId = uid, displayName = None, avatar = None, bio = None,
      preferences = (if setDefaultsOnInsert L then Some defaultPreferences else None),
      createdAt = (if setDefaultsOnInsert L then Some now else None),
      updatedAt = None\<rparr>"

text \<open>
  \<^verbatim>\<open>findOneAndUpdate({ userId }, updateData, { new: true, upsert: true })\<close>:
  the stored document after the write, and the collection after the write.
\<close>

definition upsertProfile ::
  "lib \<Rightarrow> nat \<Rightarrow> string \<Rightarrow> body \<Rightarrow> prefs option \<Rightarrow> userProfile list
     \<Rightarrow> userProfile \<times> userProfile list" where
  "upsertProfile L now uid b q ps =
     (case find (\<lambda>p. profile_userId p = uid) ps of
        Some p \<Rightarrow>
          (applyProfileUpdate L now b q p,
           updateFirst (\<lambda>p. profile_userId p = uid) (applyProfileUpdate L now b q) ps)
      | None \<Rightarrow>
          (applyProfileUpdate L now b q (insertedProfile L now uid),
           ps @ [applyProfileUpdate L now b q (insertedProfile L now uid)]))"

text \<open>PUT /profile.  The cast is part of \<^verbatim>\<open>findOneAndUpdate\<close>; its error is caught
  by the handler, which answers 500.\<close>

definition putProfile :: "lib \<Rightarrow> nat \<Rightarrow> user \<Rightarrow> body \<Rightarrow> db \<Rightarrow> response \<times> db" where
  "putProfile L now u b s =
     (if body_displayName b \<noteq> JUndefined \<and> \<not> validateDisplayName (body_displayName b)
      then (Response 400 (Error ''Display name must be 1-50 characters long''), s)
      else if body_bio b \<noteq> JUndefined \<and> \<not> validateBio (body_bio b)
      then (Response 400 (Error ''Bio must be less than 500 characters''), s)
      else if body_avatar b \<noteq> JUndefined \<and> \<not> validateAvatarUrl (parseURL L) (body_avatar b)
      then (Response 400 (Error ''Invalid avatar URL or URL too long''), s)
      else (case preferencesUpdate L (body_preferences b) of
              None \<Rightarrow> (internalError, s)
            | Some q \<Rightarrow>
                (case upsertProfile L now (sub u) b q (profiles s) of
                   (profile, ps) \<Rightarrow>
                     (Response 200 (ProfileDoc (hydrate now profile)), s\<lparr>profiles := ps\<rparr>))))"

text \<open>A payload is rejected when a field among displayName, bio and avatar that it has
  fails its validation.\<close>

definition rejected :: "lib \<Rightarrow> body \<Rightarrow> bool" where
  "rejected L b =
     ((body_displayName b \<noteq> JUndefined \<and> \<not> validateDisplayName (body_displayName b))
      \<or> (body_bio b \<noteq> JUndefined \<and> \<not> validateBio (body_bio b))
      \<or> (body_avatar b \<noteq> JUndefined \<and> \<not> validateAvatarUrl (parseURL L) (body_avatar b)))"

section \<open>Task endpoints\<close>

text \<open>
  \<^verbatim>\<open>.sort({ completed: 1, completedAt: 1 })\<close>: MongoDB compares null (or missing)
  below every boolean and below every date, false below true, dates by time.  That is
  the lexicographic order of the pairs below.
\<close>

definition sortKey :: "task \<Rightarrow> bool option \<times> nat option" where
  "sortKey t = (completed t, completedAt t)"

definition getTasks :: "user \<Rightarrow> db \<Rightarrow> response \<times> db" where
  "getTasks u s =
     (Response 200 (TaskList (sort_key sortKey (filter (\<lambda>t. userId t = sub u) (tasks s)))), s)"

definition postTask :: "lib \<Rightarrow> user \<Rightarrow> body \<Rightarrow> db \<Rightarrow> response \<times> db" where
  "postTask L u b s =
     (let cleanTitle = sanitizeInput (xss L) (body_title b) in
      if \<not> validateTitle (JStr cleanTitle)
      then (Response 400 (Error ''Invalid title input.''), s)
      else if sub u = [] then (internalError, s)
      else let task = \<lparr>task_id = nextId s, title = cleanTitle, completed = Some False,
                        completedAt = None, userId = sub u\<rparr>
           in (Response 200 (TaskDoc (Some task)),
               s\<lparr>tasks := tasks s @ [task], nextId := Suc (nextId s)\<rparr>))"

text \<open>
  What \<^verbatim>\<open>$set: { completed: v }\<close> stores, for a value that passed the cast:
  a boolean, null, or (for undefined) what \<open>omitUndefined\<close> says.
\<close>

definition setCompleted :: "lib \<Rightarrow> jsval \<Rightarrow> bool option \<Rightarrow> bool option" where
  "setCompleted L v old =
     (case v of
        JBool c \<Rightarrow> Some c
      | JUndefined \<Rightarrow> (if omitUndefined L then old else None)
      | _ \<Rightarrow> None)"

text \<open>
  The \<^verbatim>\<open>update\<close> object of PUT /tasks/:id, applied to a stored task: \<open>v\<close> is
  \<^verbatim>\<open>req.body.completed\<close> and \<open>c\<close> what the cast made of it.
\<close>

definition applyTaskUpdate :: "lib \<Rightarrow> nat \<Rightarrow> string \<Rightarrow> jsval \<Rightarrow> jsval \<Rightarrow> task \<Rightarrow> task" where
  "applyTaskUpdate L now cleanTitle v c t =
     t\<lparr>title := cleanTitle,
       completed := setCompleted L c (completed t),
       completedAt := (if truthy v then Some now else None)\<rparr>"

definition putTask :: "lib \<Rightarrow> nat \<Rightarrow> user \<Rightarrow> string \<Rightarrow> body \<Rightarrow> db \<Rightarrow> response \<times> db" where
  "putTask L now u idParam b s =
     (let cleanTitle = sanitizeInput (xss L) (body_title b) in
      if \<not> validateTitle (JStr cleanTitle)
      then (Response 400 (Error ''Invalid title input.''), s)
      else (case castObjectId L idParam of
              None \<Rightarrow> (internalError, s)
            | Some i \<Rightarrow>
                (case find (\<lambda>t. task_id t = i \<and> userId t = sub u) (tasks s) of
                   None \<Rightarrow> (Response 404 (Error ''Task not found''), s)
                 | Some _ \<Rightarrow>
                     (case castBoolean (body_completed b) of
                        None \<Rightarrow> (internalError, s)
                      | Some c \<Rightarrow>
                          let ts = updateFirst (\<lambda>t. task_id t = i)
                                     (applyTaskUpdate L now cleanTitle (body_completed b) c)
                                     (tasks s)
                          in (Response 200 (TaskDoc (find (\<lambda>t. task_id t = i) ts)),
                              s\<lparr>tasks := ts\<rparr>)))))"

definition deleteTask :: "lib \<Rightarrow> user \<Rightarrow> string \<Rightarrow> db \<Rightarrow> response \<times> db" where
  "deleteTask L u idParam s =
     (case castObjectId L idParam of
        None \<Rightarrow> (internalError, s)
      | Some i \<Rightarrow>
          (case find (\<lambda>t. task_id t = i \<and> userId t = sub u) (tasks s) of
             None \<Rightarrow> (Response 404 (Error ''Task not found''), s)
           | Some _ \<Rightarrow>
               (Response 200 (Message ''Task deleted''),
                s\<lparr>tasks := deleteFirst (\<lambda>t. task_id t = i) (tasks s)\<rparr>)))"

section \<open>The application\<close>

text \<open>
  The routes in the order the server registers them; \<open>NoRoute\<close> is the final
  \<^verbatim>\<open>app.use('*', ...)\<close>.
\<close>

datatype route =
    GetHealth
  | GetProfile
  | PutProfile
  | GetTasks
  | PostTasks
  | PutTask string
  | DeleteTask string
  | NoRoute

text \<open>
  A request: its route, the client address (\<^verbatim>\<open>req.ip\<close>), the Authorization header,
  and what \<^verbatim>\<open>express.json()\<close> makes of the body: None when the parser raises an
  error (malformed JSON, for one), and the parsed fields otherwise (a request without a
  JSON body has the empty object, \<open>noBody\<close>, as Express 4 gives it).
\<close>

record request =
  req_route :: route
  ip :: string
  authorization :: "string option"
  req_body :: "body option"

text \<open>The handler of each route; the protected ones run after \<open>jwtCheck\<close>.\<close>

fun handler :: "lib \<Rightarrow> nat \<Rightarrow> route \<Rightarrow> user \<Rightarrow> body \<Rightarrow> db \<Rightarrow> response \<times> db" where
  "handler L now GetProfile u b s = getProfile L now u s"
| "handler L now PutProfile u b s = putProfile L now u b s"
| "handler L now GetTasks u b s = getTasks u s"
| "handler L now PostTasks u b s = postTask L u b s"
| "handler L now (PutTask i) u b s = putTask L now u i b s"
| "handler L now (DeleteTask i) u b s = deleteTask L u i s"
| "handler L now GetHealth u b s = (Response 200 (HealthDoc now), s)"
| "handler L now NoRoute u b s = (Response 404 (Error ''Route not found''), s)"

definition protected :: "route \<Rightarrow> bool" where
  "protected r = (r \<noteq> GetHealth \<and> r \<noteq> NoRoute)"

text \<open>The routes, for a request that has passed the body parser and the rate limiter.\<close>

definition routes ::
  "lib \<Rightarrow> nat \<Rightarrow> route \<Rightarrow> string option \<Rightarrow> body \<Rightarrow> db \<Rightarrow> response \<times> db" where
  "routes L now r authHeader b s =
     (case r of
        GetHealth \<Rightarrow> (Response 200 (HealthDoc now), s)
      | NoRoute \<Rightarrow> (Response 404 (Error ''Route not found''), s)
      | _ \<Rightarrow> (case jwtCheck L authHeader of
                Inl res \<Rightarrow> (res, s)
              | Inr u \<Rightarrow> handler L now r u b s))"

text \<open>
  The rate limiter (express-rate-limit with its memory store): for each client address
  the number of requests in the current window and the time at which the window ends.
  A window of \<open>windowMs\<close> starts with the first request of an address after its last
  window has ended; every request is counted, and one that brings the count above
  \<open>maxRequests\<close> is answered 429.  (Versions of the package before 7 end the
  windows of all addresses together; that changes when a window ends, and nothing
  within a window.)
\<close>

definition windowMs :: nat where
  "windowMs = 1 * 60 * 1000"

definition maxRequests :: nat where
  "maxRequests = 30"

definition limiter ::
  "nat \<Rightarrow> string \<Rightarrow> (string \<rightharpoonup> nat \<times> nat) \<Rightarrow> bool \<times> (string \<rightharpoonup> nat \<times> nat)" where
  "limiter now addr h =
     (case (case h addr of
              Some (n, resetTime) \<Rightarrow>
                if now < resetTime then (n + 1, resetTime) else (1, now + windowMs)
            | None \<Rightarrow> (1, now + windowMs)) of
        (totalHits, resetTime) \<Rightarrow>
          (totalHits \<le> maxRequests, h(addr \<mapsto> (totalHits, resetTime))))"

text \<open>An address is over the limit when its window has not ended and already has
  \<open>maxRequests\<close> requests: the limiter rejects its next request.\<close>

definition overLimit :: "nat \<Rightarrow> string \<Rightarrow> (string \<rightharpoonup> nat \<times> nat) \<Rightarrow> bool" where
  "overLimit now addr h =
     (case h addr of
        Some (n, resetTime) \<Rightarrow> now < resetTime \<and> maxRequests \<le> n
      | None \<Rightarrow> False)"

text \<open>The server: the database, which persists, and the limiter's counters, which are
  in memory.\<close>

record server =
  database :: db
  hits :: "string \<rightharpoonup> nat \<times> nat"

definition emptyServer :: server where
  "emptyServer = \<lparr>database = emptyDb, hits = Map.empty\<rparr>"

definition tooManyRequests :: response where
  "tooManyRequests =
     Response 429 (Text ''Too many requests from this IP, please try again later.'')"

text \<open>
  The middleware in the order of \<^verbatim>\<open>app.use\<close>: \<^verbatim>\<open>cors()\<close> (which only adds
  headers to these requests), \<^verbatim>\<open>express.json()\<close>, the limiter, the routes.  An
  error of the body parser goes to the error handler at the end, past the limiter and
  the routes, and is answered 500.
\<close>

definition app :: "lib \<Rightarrow> nat \<Rightarrow> request \<Rightarrow> server \<Rightarrow> response \<times> server" where
  "app L now req S =
     (case req_body req of
        None \<Rightarrow> (internalError, S)
      | Some b \<Rightarrow>
          (case limiter now (ip req) (hits S) of
             (admitted, h) \<Rightarrow>
               if \<not> admitted then (tooManyRequests, S\<lparr>hits := h\<rparr>)
               else (case routes L now (req_route req) (authorization req) b (database S) of
                       (res, s) \<Rightarrow> (res, \<lparr>database = s, hits = h\<rparr>))))"

text \<open>A sequence of requests, each with the time at which it is served.\<close>

fun run :: "lib \<Rightarrow> (nat \<times> request) list \<Rightarrow> server \<Rightarrow> server" where
  "run L [] S = S"
| "run L ((now, req) # rs) S = run L rs (snd (app L now req S))"

text \<open>
  The shapes of the completed field that the client sends: a boolean (toggleComplete),
  or no field (saveEdit).
\<close>

definition isBoolean :: "jsval \<Rightarrow> bool" where
  "isBoolean v = (case v of JBool _ \<Rightarrow> True | _ \<Rightarrow> False)"

definition isFlag :: "jsval \<Rightarrow> bool" where
  "isFlag v = (v = JUndefined \<or> isBoolean v)"

text \<open>
  A completed field for which PUT /tasks/:id stores a flag and a timestamp that agree:
  the cast fails (nothing is stored), or the cast gives true exactly when the field is
  truthy.  An absent field is among them where the package writes it as null.
\<close>

definition consistentFlag :: "lib \<Rightarrow> jsval \<Rightarrow> bool" where
  "consistentFlag L v =
     (case castBoolean v of
        None \<Rightarrow> True
      | Some c \<Rightarrow> if c = JUndefined then \<not> omitUndefined L else truthy v = (c = JBool True))"

definition consistentPut :: "lib \<Rightarrow> request \<Rightarrow> bool" where
  "consistentPut L req =
     (case (req_route req, req_body req) of
        (PutTask _, Some b) \<Rightarrow> consistentFlag L (body_completed b)
      | _ \<Rightarrow> True)"

section \<open>An instance of the packages\<close>

text \<open>
  For evaluating the handlers on concrete requests.  The xss filter returns text without
  angle brackets as it is, and \<open>sanitizeInput\<close> removes every angle bracket before it
  calls the filter.  A URL parses when it starts with \<open>https://\<close>.  Tokens are the
  words \<open>alice\<close> and \<open>bob\<close>; ObjectIds are written as \<open>t0\<close>, \<open>t1\<close>, \<open>t2\<close>.
  Undefined keys of an update are dropped and an upsert applies the defaults, as in
  Mongoose 6 and later.  Numbers print in decimal, and setting the preferences to a value
  that is not a plain object is an error.
\<close>

definition alice :: user where
  "alice = \<lparr>sub = ''auth0|alice'', name = Some ''Alice'', email = None\<rparr>"

definition bob :: user where
  "bob = \<lparr>sub = ''auth0|bob'', name = None, email = Some ''bob@example.com''\<rparr>"

fun decimalNat :: "nat \<Rightarrow> string" where
  "decimalNat n =
     (if n < 10 then [char_of (48 + n)]
      else decimalNat (n div 10) @ [char_of (48 + n mod 10)])"

declare decimalNat.simps [simp del]

definition decimal :: "int \<Rightarrow> string" where
  "decimal n = (if n < 0 then CHR ''-'' # decimalNat (nat (- n)) else decimalNat (nat n))"

definition testLib :: lib where
  "testLib =
     \<lparr>xss = (\<lambda>s. s),
      parseURL = (\<lambda>s. startsWith s ''https://''),
      jwt_verify = (\<lambda>t. if t = ''alice'' then Some alice else if t = ''bob'' then Some bob else None),
      castObjectId = (\<lambda>p. if p = ''t0'' then Some 0 else if p = ''t1'' then Some 1
                           else if p = ''t2'' then Some 2 else None),
      omitUndefined = True,
      setDefaultsOnInsert = True,
      numberToString = decimal,
      castPrimitivePreferences = (\<lambda>v. None)\<rparr>"

definition titled :: "string \<Rightarrow> body" where
  "titled s = noBody\<lparr>body_title := JStr s\<rparr>"

text \<open>The database after Alice has posted the task \<open>Buy milk\<close> to the empty one.\<close>

definition aliceDb :: db where
  "aliceDb =
     \<lparr>tasks = [\<lparr>task_id = 0, title = ''Buy milk'', completed = Some False,
                completedAt = None, userId = ''auth0|alice''\<rparr>],
      profiles = [], nextId = 1\<rparr>"

text \<open>The same, after Alice has completed the task at time 5.\<close>

definition aliceDoneDb :: db where
  "aliceDoneDb =
     \<lparr>tasks = [\<lparr>task_id = 0, title = ''Buy milk'', completed = Some True,
                completedAt = Some 5, userId = ''auth0|alice''\<rparr>],
      profiles = [], nextId = 1\<rparr>"

text \<open>Tasks of Alice in mixed states, and one of Bob.\<close>

definition mixedDb :: db where
  "mixedDb =
     \<lparr>tasks =
        [\<lparr>task_id = 0, title = ''Pay rent'', completed = Some True,
          completedAt = Some 30, userId = ''auth0|alice''\<rparr>,
         \<lparr>task_id = 1, title = ''Buy milk'', completed = Some False,
          completedAt = None, userId = ''auth0|alice''\<rparr>,
         \<lparr>task_id = 2, title = ''Walk the dog'', completed = Some False,
          completedAt = None, userId = ''auth0|bob''\<rparr>,
         \<lparr>task_id = 3, title = ''Call home'', completed = Some True,
          completedAt = Some 10, userId = ''auth0|alice''\<rparr>,
         \<lparr>task_id = 4, title = ''Book flights'', completed = Some False,
          completedAt = None, userId = ''auth0|alice''\<rparr>],
      profiles = [], nextId = 5\<rparr>"

text \<open>A request of a client with a bearer token, and one without an Authorization
  header, both from one address.\<close>

definition asUser :: "string \<Rightarrow> route \<Rightarrow> body \<Rightarrow> request" where
  "asUser token r b =
     \<lparr>req_route = r, ip = ''203.0.113.7'', authorization = Some (''Bearer '' @ token),
      req_body = Some b\<rparr>"

definition anonymous :: "route \<Rightarrow> request" where
  "anonymous r =
     \<lparr>req_route = r, ip = ''203.0.113.7'', authorization = None, req_body = Some noBody\<rparr>"

section \<open>Lists of documents\<close>

lemma find_SomeD: "find P xs = Some x \<Longrightarrow> x \<in> set xs \<and> P x"
  by (auto simp: find_Some_iff)

lemma find_snoc:
  "find P (xs @ [x]) = (case find P xs of Some y \<Rightarrow> Some y | None \<Rightarrow> if P x then Some x else None)"
  by (induction xs) auto

lemma find_updateFirst:
  assumes "\<And>x. P x \<Longrightarrow> P (f x)"
  shows "find P (updateFirst P f xs) = map_option f (find P xs)"
  using assms by (induction xs) auto

lemma map_updateFirst:
  assumes "\<And>x. g (f x) = g x"
  shows "map g (updateFirst P f xs) = map g xs"
  using assms by (induction xs) auto

lemma filter_updateFirst_others:
  assumes "\<And>x. P x \<Longrightarrow> P (f x)"
  shows "filter (\<lambda>x. \<not> P x) (updateFirst P f xs) = filter (\<lambda>x. \<not> P x) xs"
  using assms by (induction xs) auto

lemma list_all_updateFirst:
  "list_all Q xs \<Longrightarrow> (\<And>x. Q x \<Longrightarrow> Q (f x)) \<Longrightarrow> list_all Q (updateFirst P f xs)"
  by (induction xs) auto

lemma list_all_deleteFirst:
  "list_all Q xs \<Longrightarrow> list_all Q (deleteFirst P xs)"
  by (induction xs) auto

lemma set_deleteFirst: "set (deleteFirst P xs) \<subseteq> set xs"
  by (induction xs) auto

lemma distinct_map_deleteFirst:
  "distinct (map g xs) \<Longrightarrow> distinct (map g (deleteFirst P xs))"
proof (induction xs)
  case Nil
  then show ?case by simp
next
  case (Cons x xs)
  have "g ` set (deleteFirst P xs) \<subseteq> g ` set xs"
    using set_deleteFirst [of P xs] by blast
  with Cons show ?case by auto
qed

text \<open>With unique ids, a query that fixes the id finds the one task that has it.\<close>

lemma find_unique_id:
  assumes "distinct (map task_id ts)" and "x \<in> set ts" and "P x"
    and "\<And>y. P y \<Longrightarrow> task_id y = task_id x"
  shows "find P ts = Some x"
proof -
  have inj: "inj_on task_id (set ts)"
    using assms(1) by (simp add: distinct_map)
  obtain y where y: "find P ts = Some y"
    using assms(2,3) by (cases "find P ts") (auto simp: find_None_iff)
  then have "y \<in> set ts" and "P y"
    by (auto simp: find_Some_iff)
  then have "y = x"
    using inj assms(2,4) by (auto dest: inj_onD)
  with y show ?thesis by simp
qed

lemma find_owned_by_id:
  assumes "distinct (map task_id ts)"
    and "find (\<lambda>t. task_id t = i \<and> userId t = b) ts = Some T"
  shows "find (\<lambda>t. task_id t = i) ts = Some T"
  using find_SomeD [OF assms(2)] by (intro find_unique_id [OF assms(1)]) auto

text \<open>And a task of one owner is not found under another owner.\<close>

lemma find_other_owner:
  assumes "T \<in> set ts" and "distinct (map task_id ts)" and "userId T \<noteq> b"
  shows "find (\<lambda>t. task_id t = task_id T \<and> userId t = b) ts = None"
proof -
  have "inj_on task_id (set ts)"
    using assms(2) by (simp add: distinct_map)
  then have "\<And>t. t \<in> set ts \<Longrightarrow> task_id t = task_id T \<Longrightarrow> t = T"
    using assms(1) by (auto dest: inj_onD)
  then show ?thesis
    using assms(3) by (auto simp: find_None_iff)
qed

lemma find_absent_id:
  assumes "list_all (\<lambda>t. task_id t \<noteq> i) ts"
  shows "find (\<lambda>t. task_id t = i \<and> userId t = b) ts = None"
  using assms by (auto simp: find_None_iff list_all_iff)

section \<open>The application and its routes\<close>

lemma routes_protected:
  "protected r \<Longrightarrow>
   routes L now r authHeader b s =
     (case jwtCheck L authHeader of
        Inl res \<Rightarrow> (res, s)
      | Inr u \<Rightarrow> handler L now r u b s)"
  by (cases r) (simp_all add: routes_def protected_def split: sum.splits)

lemma routes_unprotected:
  "\<not> protected r \<Longrightarrow> snd (routes L now r authHeader b s) = s"
  by (cases r) (simp_all add: routes_def protected_def)

text \<open>The database after a request: the routes see it only when the body parses and the
  limiter admits the request.\<close>

lemma database_app:
  "database (snd (app L now req S)) =
     (case req_body req of
        None \<Rightarrow> database S
      | Some b \<Rightarrow>
          if fst (limiter now (ip req) (hits S))
          then snd (routes L now (req_route req) (authorization req) b (database S))
          else database S)"
  by (simp add: app_def split: option.splits prod.splits)

lemmas eval_title =
  testLib_def titled_def noBody_def sanitizeInput_def validateTitle_def trim_def
  removeAngleBrackets_def isWhiteSpace_def Let_def

lemmas eval_app =
  app_def routes_def limiter_def windowMs_def maxRequests_def tooManyRequests_def
  emptyServer_def jwtCheck_def startsWith_def asUser_def anonymous_def alice_def bob_def

section \<open>Unique ids\<close>

lemma postTask_wellFormed:
  assumes "wellFormed s"
  shows "wellFormed (snd (postTask L u b s))"
proof -
  have "nextId s \<notin> task_id ` set (tasks s)"
    using assms by (auto simp: wellFormed_def list_all_iff)
  moreover have "list_all (\<lambda>t. task_id t < Suc (nextId s)) (tasks s)"
    using assms by (auto simp: wellFormed_def list_all_iff less_Suc_eq)
  ultimately show ?thesis
    using assms by (simp add: postTask_def Let_def wellFormed_def idsUnique_def)
qed

lemma putTask_wellFormed:
  assumes "wellFormed s"
  shows "wellFormed (snd (putTask L now u p b s))"
proof -
  have ids: "map task_id (updateFirst P (applyTaskUpdate L now ct v c) (tasks s)) = map task_id (tasks s)"
    for P ct v c
    by (rule map_updateFirst) (simp add: applyTaskUpdate_def)
  have below: "list_all (\<lambda>t. task_id t < nextId s) (updateFirst P (applyTaskUpdate L now ct v c) (tasks s))"
    for P ct v c
    using assms by (intro list_all_updateFirst) (simp_all add: wellFormed_def applyTaskUpdate_def)
  show ?thesis
    using assms
    by (auto simp: putTask_def Let_def wellFormed_def idsUnique_def ids below split: option.splits)
qed

lemma deleteTask_wellFormed:
  assumes "wellFormed s"
  shows "wellFormed (snd (deleteTask L u p s))"
  using assms
  by (auto simp: deleteTask_def wellFormed_def idsUnique_def
      intro: distinct_map_deleteFirst list_all_deleteFirst split: option.splits)

lemma getProfile_wellFormed:
  "wellFormed s \<Longrightarrow> wellFormed (snd (getProfile L now u s))"
  by (simp add: getProfile_def Let_def wellFormed_def idsUnique_def split: option.splits)

lemma putProfile_wellFormed:
  "wellFormed s \<Longrightarrow> wellFormed (snd (putProfile L now u b s))"
  by (simp add: putProfile_def Let_def wellFormed_def idsUnique_def
      split: option.splits prod.splits)

lemma handler_wellFormed:
  "wellFormed s \<Longrightarrow> wellFormed (snd (handler L now r u b s))"
  by (cases r)
    (simp_all add: getProfile_wellFormed putProfile_wellFormed getTasks_def postTask_wellFormed
      putTask_wellFormed deleteTask_wellFormed)

lemma routes_wellFormed:
  assumes "wellFormed s"
  shows "wellFormed (snd (routes L now r authHeader b s))"
proof (cases "protected r")
  case False
  then show ?thesis using assms by (simp add: routes_unprotected)
next
  case True
  then show ?thesis
    using assms by (simp add: routes_protected handler_wellFormed split: sum.splits)
qed

lemma app_wellFormed:
  assumes "wellFormed (database S)"
  shows "wellFormed (database (snd (app L now req S)))"
  using assms by (simp add: database_app routes_wellFormed split: option.splits)

lemma run_wellFormed:
  "wellFormed (database S) \<Longrightarrow> wellFormed (database (run L rs S))"
  by (induction rs arbitrary: S) (auto simp: app_wellFormed)

text \<open>Every database that requests produce from the empty one has unique ids.\<close>

lemma run_idsUnique: "idsUnique (database (run L rs emptyServer))"
proof -
  have "wellFormed (database emptyServer)"
    by (simp add: wellFormed_def idsUnique_def emptyDb_def emptyServer_def)
  then have "wellFormed (database (run L rs emptyServer))"
    by (rule run_wellFormed)
  then show ?thesis by (simp add: wellFormed_def)
qed

text \<open>The databases of the examples are such databases.\<close>

lemma aliceDb_reachable:
  "database (run testLib [(1, asUser ''alice'' PostTasks (titled ''Buy milk''))] emptyServer)
     = aliceDb"
  by (simp add: eval_app eval_title postTask_def emptyDb_def aliceDb_def)

lemma aliceDoneDb_reachable:
  "database (run testLib
     [(1, asUser ''alice'' PostTasks (titled ''Buy milk'')),
      (5, asUser ''alice'' (PutTask ''t0'') (titled ''Buy milk''\<lparr>body_completed := JBool True\<rparr>))]
     emptyServer) = aliceDoneDb"
  by (simp add: eval_app eval_title postTask_def putTask_def applyTaskUpdate_def
      setCompleted_def emptyDb_def aliceDoneDb_def)

section \<open>Sanitization and validation of a task title\<close>

lemma validateTitle_JStr:
  "validateTitle (JStr s) = (0 < length (trim s) \<and> length (trim s) \<le> 100)"
  by (simp add: validateTitle_def Let_def)

text \<open>A task that POST /tasks stores has the sanitized title, and that title is valid.\<close>

lemma postTask_created:
  assumes "fst (postTask L u b s) = Response 200 (TaskDoc (Some t))"
  shows "completed t = Some False \<and> completedAt t = None
       \<and> title t = sanitizeInput (xss L) (body_title b) \<and> validateTitle (JStr (title t))
       \<and> tasks (snd (postTask L u b s)) = tasks s @ [t]"
  using assms by (auto simp: postTask_def Let_def internalError_def split: if_splits)

text \<open>
  Claim C2, as amended.  POST /tasks answers 400 and stores nothing whenever the
  sanitized title (angle brackets removed, trimmed, passed through the xss filter) still
  has more than 100 characters once trimmed: the limit is on the sanitized text, not on
  the string that was sent.
\<close>

theorem postTask_long_sanitized_title:
  "100 < length (trim (sanitizeInput (xss L) (body_title b))) \<Longrightarrow>
   postTask L u b s = (Response 400 (Error ''Invalid title input.''), s)"
  by (simp add: postTask_def validateTitle_JStr Let_def)

theorem postTask_long_sanitized_title_witness:
  "postTask testLib alice (titled (replicate 101 CHR ''a'')) emptyDb
     = (Response 400 (Error ''Invalid title input.''), emptyDb)"
proof -
  have "100 < length (trim (sanitizeInput (xss testLib) (body_title (titled (replicate 101 CHR ''a'')))))"
    by (simp add: eval_title)
  then show ?thesis by (rule postTask_long_sanitized_title)
qed

text \<open>
  Claim C2 as stated fails: a title of 101 characters, 100 letters and an angle bracket,
  is sanitized to 100 letters, accepted and stored.
\<close>

theorem postTask_long_raw_title_accepted:
  "length (replicate 100 CHR ''a'' @ ''<'') = 101
   \<and> postTask testLib alice (titled (replicate 100 CHR ''a'' @ ''<'')) emptyDb
       = (Response 200 (TaskDoc (Some \<lparr>task_id = 0, title = replicate 100 CHR ''a'',
             completed = Some False, completedAt = None, userId = ''auth0|alice''\<rparr>)),
          \<lparr>tasks = [\<lparr>task_id = 0, title = replicate 100 CHR ''a'',
             completed = Some False, completedAt = None, userId = ''auth0|alice''\<rparr>],
           profiles = [], nextId = 1\<rparr>)"
  by (simp add: postTask_def alice_def emptyDb_def eval_title)

section \<open>Tasks of another user\<close>

lemma putTask_not_found:
  assumes "castObjectId L p = Some i"
    and "find (\<lambda>t. task_id t = i \<and> userId t = sub u) (tasks s) = None"
  shows "putTask L now u p b s =
     (if validateTitle (JStr (sanitizeInput (xss L) (body_title b)))
      then Response 404 (Error ''Task not found'')
      else Response 400 (Error ''Invalid title input.''), s)"
  using assms by (simp add: putTask_def Let_def)

lemma deleteTask_not_found:
  assumes "castObjectId L p = Some i"
    and "find (\<lambda>t. task_id t = i \<and> userId t = sub u) (tasks s) = None"
  shows "deleteTask L u p s = (Response 404 (Error ''Task not found''), s)"
  using assms by (simp add: deleteTask_def)

text \<open>
  Claim C1, as amended.  Let T be a stored task and B an authenticated user who does not
  own it, and let the path parameter be T's id.  DELETE /tasks/:id by B answers 404.
  PUT /tasks/:id by B answers 404 when the sanitized title is valid, and 400 when it is
  not (the title is checked before the task is looked up).  Each answer is the one the
  same request gets from a database \<open>s'\<close> that has no task with this id, and the
  database, T included, is unchanged.
\<close>

theorem foreign_task_not_found:
  assumes "T \<in> set (tasks s)" and "idsUnique s" and "userId T \<noteq> sub B"
    and "castObjectId L p = Some (task_id T)"
    and "list_all (\<lambda>t. task_id t \<noteq> task_id T) (tasks s')"
  shows "putTask L now B p b s =
           (if validateTitle (JStr (sanitizeInput (xss L) (body_title b)))
            then Response 404 (Error ''Task not found'')
            else Response 400 (Error ''Invalid title input.''), s)
       \<and> fst (putTask L now B p b s) = fst (putTask L now B p b s')
       \<and> deleteTask L B p s = (Response 404 (Error ''Task not found''), s)
       \<and> fst (deleteTask L B p s) = fst (deleteTask L B p s')"
proof -
  have here: "find (\<lambda>t. task_id t = task_id T \<and> userId t = sub B) (tasks s) = None"
    using assms(1-3) by (simp add: find_other_owner idsUnique_def)
  have there: "find (\<lambda>t. task_id t = task_id T \<and> userId t = sub B) (tasks s') = None"
    using assms(5) by (rule find_absent_id)
  show ?thesis
    by (simp add: putTask_not_found [OF assms(4) here] putTask_not_found [OF assms(4) there]
        deleteTask_not_found [OF assms(4) here] deleteTask_not_found [OF assms(4) there])
qed

theorem foreign_task_not_found_witness:
  "putTask testLib 9 bob ''t0'' (titled ''Mine now'') aliceDb
       = (Response 404 (Error ''Task not found''), aliceDb)
   \<and> fst (putTask testLib 9 bob ''t0'' (titled ''Mine now'') aliceDb)
       = fst (putTask testLib 9 bob ''t0'' (titled ''Mine now'') emptyDb)
   \<and> deleteTask testLib bob ''t0'' aliceDb = (Response 404 (Error ''Task not found''), aliceDb)
   \<and> fst (deleteTask testLib bob ''t0'' aliceDb) = fst (deleteTask testLib bob ''t0'' emptyDb)"
proof -
  let ?T = "\<lparr>task_id = 0, title = ''Buy milk'', completed = Some False,
                completedAt = None, userId = ''auth0|alice''\<rparr>"
  have 1: "?T \<in> set (tasks aliceDb)" by (simp add: aliceDb_def)
  have 2: "idsUnique aliceDb" by (simp add: idsUnique_def aliceDb_def)
  have 3: "userId ?T \<noteq> sub bob" by (simp add: bob_def)
  have 4: "castObjectId testLib ''t0'' = Some (task_id ?T)" by (simp add: testLib_def)
  have 5: "list_all (\<lambda>t. task_id t \<noteq> task_id ?T) (tasks emptyDb)" by (simp add: emptyDb_def)
  have v: "validateTitle (JStr (sanitizeInput (xss testLib) (body_title (titled ''Mine now''))))"
    by (simp add: eval_title)
  show ?thesis
    by (rule foreign_task_not_found [OF 1 2 3 4 5, of 9 "titled ''Mine now''", unfolded if_P [OF v]])
qed

text \<open>
  Claim C1 as stated fails: Bob's PUT on Alice's task with an empty title is answered
  400, not 404.
\<close>

theorem foreign_put_invalid_title:
  "tasks aliceDb = [\<lparr>task_id = 0, title = ''Buy milk'', completed = Some False,
                      completedAt = None, userId = sub alice\<rparr>]
   \<and> sub bob \<noteq> sub alice
   \<and> castObjectId testLib ''t0'' = Some 0
   \<and> putTask testLib 9 bob ''t0'' (titled '''') aliceDb
       = (Response 400 (Error ''Invalid title input.''), aliceDb)"
  by (simp add: putTask_def alice_def bob_def aliceDb_def eval_title)

section \<open>Updating an owned task\<close>

lemma putTask_owned:
  assumes uniq: "idsUnique s" and cast: "castObjectId L p = Some i"
    and owned: "find (\<lambda>t. task_id t = i \<and> userId t = sub u) (tasks s) = Some T"
    and valid: "validateTitle (JStr (sanitizeInput (xss L) (body_title b)))"
    and bool: "castBoolean (body_completed b) = Some c"
  shows "fst (putTask L now u p b s) = Response 200 (TaskDoc (Some
           (applyTaskUpdate L now (sanitizeInput (xss L) (body_title b)) (body_completed b) c T)))"
    and "find (\<lambda>t. task_id t = i \<and> userId t = sub u) (tasks (snd (putTask L now u p b s)))
           = Some (applyTaskUpdate L now (sanitizeInput (xss L) (body_title b)) (body_completed b) c T)"
    and "idsUnique (snd (putTask L now u p b s))"
proof -
  let ?f = "applyTaskUpdate L now (sanitizeInput (xss L) (body_title b)) (body_completed b) c"
  let ?ts = "updateFirst (\<lambda>t. task_id t = i) ?f (tasks s)"
  have d: "distinct (map task_id (tasks s))"
    using uniq by (simp add: idsUnique_def)
  have put: "putTask L now u p b s =
      (Response 200 (TaskDoc (find (\<lambda>t. task_id t = i) ?ts)), s\<lparr>tasks := ?ts\<rparr>)"
    using cast owned valid bool by (simp add: putTask_def Let_def)
  have byId: "find (\<lambda>t. task_id t = i) (tasks s) = Some T"
    using d owned by (rule find_owned_by_id)
  have found: "find (\<lambda>t. task_id t = i) ?ts = Some (?f T)"
    by (simp add: find_updateFirst byId applyTaskUpdate_def)
  have ids: "map task_id ?ts = map task_id (tasks s)"
    by (rule map_updateFirst) (simp add: applyTaskUpdate_def)
  have T: "task_id T = i" "userId T = sub u"
    using find_SomeD [OF owned] by auto
  show "fst (putTask L now u p b s) = Response 200 (TaskDoc (Some (?f T)))"
    by (simp add: put found)
  show "idsUnique (snd (putTask L now u p b s))"
    by (simp add: put idsUnique_def ids d)
  have "find (\<lambda>t. task_id t = i \<and> userId t = sub u) ?ts = Some (?f T)"
  proof (rule find_unique_id)
    show "distinct (map task_id ?ts)" by (simp add: ids d)
    show "?f T \<in> set ?ts" using find_SomeD [OF found] by simp
    show "task_id (?f T) = i \<and> userId (?f T) = sub u" by (simp add: applyTaskUpdate_def T)
    show "task_id y = task_id (?f T)" if "task_id y = i \<and> userId y = sub u" for y
      using that by (simp add: applyTaskUpdate_def T)
  qed
  then show "find (\<lambda>t. task_id t = i \<and> userId t = sub u) (tasks (snd (putTask L now u p b s)))
      = Some (?f T)"
    by (simp add: put)
qed

lemma castBoolean_flag: "isFlag v \<Longrightarrow> castBoolean v = Some v"
  by (cases v) (auto simp: isFlag_def isBoolean_def)

lemma truthy_flag: "isFlag v \<Longrightarrow> truthy v = (v = JBool True)"
  by (cases v) (auto simp: isFlag_def isBoolean_def)

lemma clean_oat_milk:
  "sanitizeInput (xss testLib) (body_title (titled ''Buy oat milk'')) = ''Buy oat milk''"
  by (simp add: eval_title)

lemma putTask_uncastable:
  assumes "castObjectId L p = Some i"
    and "find (\<lambda>t. task_id t = i \<and> userId t = sub u) (tasks s) = Some T"
    and "validateTitle (JStr (sanitizeInput (xss L) (body_title b)))"
    and "castBoolean (body_completed b) = None"
  shows "putTask L now u p b s = (internalError, s)"
  using assms by (simp add: putTask_def Let_def)

text \<open>
  Claim C3, as amended.  Take a PUT /tasks/:id on a task the caller owns, with a title
  that passes validation.  When Mongoose cannot cast the completed field to Boolean, the
  answer is 500 and nothing is stored.  Otherwise the answer is 200, and afterwards the
  stored task has the sanitized title, and its completedAt is the time of the request
  when the completed field is truthy and null when it is not.  For a completed flag
  (true, false or absent) this is: the time of the request when the flag is true, null
  otherwise; and a PUT with completed true followed by a PUT with completed false leaves
  completedAt null.
\<close>

theorem putTask_owned_outcome:
  assumes uniq: "idsUnique s" and cast: "castObjectId L p = Some i"
    and owned: "find (\<lambda>t. task_id t = i \<and> userId t = sub u) (tasks s) = Some T"
    and valid: "validateTitle (JStr (sanitizeInput (xss L) (body_title b)))"
  shows "(castBoolean (body_completed b) = None \<longrightarrow>
            putTask L now u p b s = (internalError, s))
     \<and> (castBoolean (body_completed b) \<noteq> None \<longrightarrow>
          status (fst (putTask L now u p b s)) = 200
          \<and> map_option title (find (\<lambda>t. task_id t = i \<and> userId t = sub u)
               (tasks (snd (putTask L now u p b s)))) = Some (sanitizeInput (xss L) (body_title b))
          \<and> map_option completedAt (find (\<lambda>t. task_id t = i \<and> userId t = sub u)
               (tasks (snd (putTask L now u p b s))))
             = Some (if truthy (body_completed b) then Some now else None))
     \<and> (isFlag (body_completed b) \<longrightarrow>
          status (fst (putTask L now u p b s)) = 200
          \<and> map_option title (find (\<lambda>t. task_id t = i \<and> userId t = sub u)
               (tasks (snd (putTask L now u p b s)))) = Some (sanitizeInput (xss L) (body_title b))
          \<and> map_option completedAt (find (\<lambda>t. task_id t = i \<and> userId t = sub u)
               (tasks (snd (putTask L now u p b s))))
             = Some (if body_completed b = JBool True then Some now else None))
     \<and> map_option completedAt (find (\<lambda>t. task_id t = i \<and> userId t = sub u)
          (tasks (snd (putTask L now' u p (b\<lparr>body_completed := JBool False\<rparr>)
             (snd (putTask L now u p (b\<lparr>body_completed := JBool True\<rparr>) s))))))
        = Some None"
proof -
  have castable: "status (fst (putTask L now u p b s)) = 200
          \<and> map_option title (find (\<lambda>t. task_id t = i \<and> userId t = sub u)
               (tasks (snd (putTask L now u p b s)))) = Some (sanitizeInput (xss L) (body_title b))
          \<and> map_option completedAt (find (\<lambda>t. task_id t = i \<and> userId t = sub u)
               (tasks (snd (putTask L now u p b s))))
             = Some (if truthy (body_completed b) then Some now else None)"
    if "castBoolean (body_completed b) = Some c" for c
    using putTask_owned(1,2) [OF uniq cast owned valid that, of now]
    by (simp add: applyTaskUpdate_def)
  let ?b1 = "b\<lparr>body_completed := JBool True\<rparr>" and ?b2 = "b\<lparr>body_completed := JBool False\<rparr>"
  have valid1: "validateTitle (JStr (sanitizeInput (xss L) (body_title ?b1)))"
    and valid2: "validateTitle (JStr (sanitizeInput (xss L) (body_title ?b2)))"
    using valid by simp_all
  have c1: "castBoolean (body_completed ?b1) = Some (JBool True)"
    and c2: "castBoolean (body_completed ?b2) = Some (JBool False)"
    by simp_all
  note first = putTask_owned [OF uniq cast owned valid1 c1, of now]
  note second = putTask_owned [OF first(3) cast first(2) valid2 c2, of now']
  have toggle: "map_option completedAt (find (\<lambda>t. task_id t = i \<and> userId t = sub u)
          (tasks (snd (putTask L now' u p ?b2 (snd (putTask L now u p ?b1 s)))))) = Some None"
    by (simp add: second(2) applyTaskUpdate_def)
  have uncastable: "putTask L now u p b s = (internalError, s)"
    if "castBoolean (body_completed b) = None"
    using cast owned valid that by (rule putTask_uncastable)
  show ?thesis
    using castable castable [OF castBoolean_flag] truthy_flag toggle uncastable
    by (cases "castBoolean (body_completed b)") auto
qed

theorem putTask_owned_outcome_witness:
  "status (fst (putTask testLib 5 alice ''t0'' (titled ''Buy oat milk''\<lparr>body_completed := JBool True\<rparr>) aliceDb)) = 200
     \<and> map_option title (find (\<lambda>t. task_id t = 0 \<and> userId t = sub alice)
          (tasks (snd (putTask testLib 5 alice ''t0'' (titled ''Buy oat milk''\<lparr>body_completed := JBool True\<rparr>) aliceDb))))
        = Some ''Buy oat milk''
     \<and> map_option completedAt (find (\<lambda>t. task_id t = 0 \<and> userId t = sub alice)
          (tasks (snd (putTask testLib 5 alice ''t0'' (titled ''Buy oat milk''\<lparr>body_completed := JBool True\<rparr>) aliceDb))))
        = Some (Some 5)
     \<and> map_option completedAt (find (\<lambda>t. task_id t = 0 \<and> userId t = sub alice)
          (tasks (snd (putTask testLib 8 alice ''t0'' (titled ''Buy oat milk''\<lparr>body_completed := JBool False\<rparr>)
             (snd (putTask testLib 5 alice ''t0'' (titled ''Buy oat milk''\<lparr>body_completed := JBool True\<rparr>) aliceDb))))))
        = Some None
     \<and> putTask testLib 5 alice ''t0'' (titled ''Buy oat milk''\<lparr>body_completed := JObj []\<rparr>) aliceDb
        = (internalError, aliceDb)"
proof -
  let ?b = "titled ''Buy oat milk''\<lparr>body_completed := JBool True\<rparr>"
  let ?c = "titled ''Buy oat milk''\<lparr>body_completed := JObj []\<rparr>"
  have 1: "idsUnique aliceDb" by (simp add: idsUnique_def aliceDb_def)
  have 2: "castObjectId testLib ''t0'' = Some 0" by (simp add: testLib_def)
  have 3: "find (\<lambda>t. task_id t = 0 \<and> userId t = sub alice) (tasks aliceDb)
      = Some \<lparr>task_id = 0, title = ''Buy milk'', completed = Some False,
                completedAt = None, userId = ''auth0|alice''\<rparr>"
    by (simp add: aliceDb_def alice_def)
  have 4: "validateTitle (JStr (sanitizeInput (xss testLib) (body_title ?b)))"
    and 5: "validateTitle (JStr (sanitizeInput (xss testLib) (body_title ?c)))"
    by (simp_all add: eval_title)
  show ?thesis
    using putTask_owned_outcome [OF 1 2 3 4, where now = 5 and now' = 8]
      putTask_owned_outcome [OF 1 2 3 5, where now = 5 and now' = 8]
    by (simp add: clean_oat_milk isFlag_def isBoolean_def)
qed

text \<open>
  Claim C3 as stated fails.  For Alice's task and a valid title, a PUT whose completed
  field is the string \<open>false\<close> stores a completedAt, although the field is not true;
  and a PUT whose completed field is the number 2 is answered 500 and stores neither the
  title nor anything else.
\<close>

theorem putTask_completed_not_a_flag:
  "validateTitle (JStr (sanitizeInput (xss testLib) (JStr ''Buy oat milk'')))
   \<and> putTask testLib 5 alice ''t0'' (titled ''Buy oat milk''\<lparr>body_completed := JStr ''false''\<rparr>) aliceDb
       = (Response 200 (TaskDoc (Some \<lparr>task_id = 0, title = ''Buy oat milk'',
             completed = Some False, completedAt = Some 5, userId = ''auth0|alice''\<rparr>)),
          \<lparr>tasks = [\<lparr>task_id = 0, title = ''Buy oat milk'',
             completed = Some False, completedAt = Some 5, userId = ''auth0|alice''\<rparr>],
           profiles = [], nextId = 1\<rparr>)
   \<and> putTask testLib 5 alice ''t0'' (titled ''Buy oat milk''\<lparr>body_completed := JNum 2\<rparr>) aliceDb
       = (Response 500 (Error ''Internal server error''), aliceDb)"
  by (simp add: putTask_def alice_def aliceDb_def applyTaskUpdate_def setCompleted_def
      internalError_def eval_title)

text \<open>
  A PUT /tasks/:id with a valid title and no completed field, on an owned task that is
  completed, stores the sanitized title and sets completedAt to null.  The stored
  completed flag becomes null where the package writes an undefined key of an update as
  null, and stays true where the package drops such a key.
\<close>

lemma putTask_without_completed:
  assumes uniq: "idsUnique s" and cast: "castObjectId L p = Some i"
    and owned: "find (\<lambda>t. task_id t = i \<and> userId t = sub u) (tasks s) = Some T"
    and valid: "validateTitle (JStr (sanitizeInput (xss L) (body_title b)))"
    and absent: "body_completed b = JUndefined"
    and isDone: "completed T = Some True"
  shows "find (\<lambda>t. task_id t = i \<and> userId t = sub u) (tasks (snd (putTask L now u p b s)))
     = Some (T\<lparr>title := sanitizeInput (xss L) (body_title b),
               completed := (if omitUndefined L then Some True else None),
               completedAt := None\<rparr>)"
proof -
  have c: "castBoolean (body_completed b) = Some JUndefined"
    by (simp add: absent)
  show ?thesis
    by (simp add: putTask_owned(2) [OF uniq cast owned valid c] applyTaskUpdate_def
        setCompleted_def absent isDone)
qed

text \<open>
  Claim C10 fails where the package drops undefined keys of an update (Mongoose 6 and
  later).  The claim is that the PUT that saveEdit sends (a title, no completed field)
  stores a completed task with a completed flag that is not true and completedAt null.
  For Alice's completed task the handler stores completedAt null and leaves completed
  true: the update object means to write the flag and the timestamp together, as the
  request of toggleComplete makes it do, and here the flag is not written.
\<close>

theorem putTask_without_completed_keeps_flag:
  "tasks aliceDoneDb = [\<lparr>task_id = 0, title = ''Buy milk'', completed = Some True,
                completedAt = Some 5, userId = sub alice\<rparr>]
   \<and> body_completed (titled ''Buy oat milk'') = JUndefined
   \<and> putTask testLib 9 alice ''t0'' (titled ''Buy oat milk'') aliceDoneDb
       = (Response 200 (TaskDoc (Some \<lparr>task_id = 0, title = ''Buy oat milk'',
             completed = Some True, completedAt = None, userId = ''auth0|alice''\<rparr>)),
          \<lparr>tasks = [\<lparr>task_id = 0, title = ''Buy oat milk'',
             completed = Some True, completedAt = None, userId = ''auth0|alice''\<rparr>],
           profiles = [], nextId = 1\<rparr>)"
  by (simp add: putTask_def alice_def aliceDoneDb_def applyTaskUpdate_def setCompleted_def eval_title)

section \<open>The completion invariant\<close>

lemma tasks_getProfile: "tasks (snd (getProfile L now u s)) = tasks s"
  by (simp add: getProfile_def Let_def split: option.splits)

lemma tasks_putProfile: "tasks (snd (putProfile L now u b s)) = tasks s"
  by (simp add: putProfile_def Let_def split: option.splits prod.splits)

lemma postTask_inv:
  assumes "list_all completionInv (tasks s)"
  shows "list_all completionInv (tasks (snd (postTask L u b s)))"
  using assms by (simp add: postTask_def Let_def completionInv_def)

lemma castBoolean_cases:
  assumes "castBoolean v = Some c"
  shows "c = JUndefined \<or> c = JNull \<or> c = JBool True \<or> c = JBool False"
  using assms by (cases v) (auto split: if_splits)

lemma castBoolean_undefined: "castBoolean v = Some JUndefined \<Longrightarrow> v = JUndefined"
  by (cases v) (auto split: if_splits)

lemma applyTaskUpdate_inv:
  assumes "consistentFlag L v" and "castBoolean v = Some c"
  shows "completionInv (applyTaskUpdate L now cleanTitle v c t)"
  using assms castBoolean_cases [OF assms(2)]
  by (auto dest: castBoolean_undefined simp: consistentFlag_def applyTaskUpdate_def setCompleted_def completionInv_def
      split: if_splits)

lemma putTask_inv:
  assumes "list_all completionInv (tasks s)" and "consistentFlag L (body_completed b)"
  shows "list_all completionInv (tasks (snd (putTask L now u p b s)))"
  using assms
  by (auto simp: putTask_def Let_def applyTaskUpdate_inv
      intro!: list_all_updateFirst split: option.splits)

lemma deleteTask_inv:
  assumes "list_all completionInv (tasks s)"
  shows "list_all completionInv (tasks (snd (deleteTask L u p s)))"
  using assms by (auto simp: deleteTask_def intro!: list_all_deleteFirst split: option.splits)

lemma handler_inv:
  assumes "list_all completionInv (tasks s)"
    and "\<And>i. r = PutTask i \<Longrightarrow> consistentFlag L (body_completed b)"
  shows "list_all completionInv (tasks (snd (handler L now r u b s)))"
  using assms
  by (cases r)
    (simp_all add: tasks_getProfile tasks_putProfile getTasks_def postTask_inv putTask_inv
      deleteTask_inv)

lemma routes_inv:
  assumes "list_all completionInv (tasks s)"
    and "\<And>i. r = PutTask i \<Longrightarrow> consistentFlag L (body_completed b)"
  shows "list_all completionInv (tasks (snd (routes L now r authHeader b s)))"
proof (cases "protected r")
  case False
  then show ?thesis
    using assms(1) by (simp add: routes_unprotected)
next
  case True
  show ?thesis
  proof (cases "jwtCheck L authHeader")
    case (Inl res)
    then show ?thesis
      using assms(1) by (simp add: routes_protected [OF True])
  next
    case (Inr u)
    have "list_all completionInv (tasks (snd (handler L now r u b s)))"
      using assms by (rule handler_inv)
    then show ?thesis
      by (simp add: routes_protected [OF True] Inr)
  qed
qed

lemma app_inv:
  assumes "list_all completionInv (tasks (database S))" and "consistentPut L req"
  shows "list_all completionInv (tasks (database (snd (app L now req S))))"
proof (cases "req_body req")
  case None
  then show ?thesis using assms(1) by (simp add: database_app)
next
  case (Some b)
  have "list_all completionInv
      (tasks (snd (routes L now (req_route req) (authorization req) b (database S))))"
    using assms Some by (intro routes_inv) (auto simp: consistentPut_def)
  then show ?thesis
    using assms(1) by (simp add: database_app Some)
qed

text \<open>
  Where the invariant holds: in every database that requests produce from the empty one,
  when the completed field of each PUT /tasks/:id is one for which the flag and the
  timestamp agree.  That leaves out the strings \<open>false\<close>, \<open>0\<close> and \<open>no\<close>, and, where
  the package drops undefined keys, the PUT without a completed field.
\<close>

lemma run_inv:
  assumes "list_all (\<lambda>(now, req). consistentPut L req) rs"
    and "list_all completionInv (tasks (database S))"
  shows "list_all completionInv (tasks (database (run L rs S)))"
  using assms
proof (induction rs arbitrary: S)
  case Nil
  then show ?case by simp
next
  case (Cons r rs)
  obtain now req where r: "r = (now, req)" by (cases r)
  from Cons.prems have "consistentPut L req"
    and rest: "list_all (\<lambda>(now, req). consistentPut L req) rs"
    by (simp_all add: r)
  then have "list_all completionInv (tasks (database (snd (app L now req S))))"
    using Cons.prems(2) by (intro app_inv)
  with rest show ?case
    by (simp add: r Cons.IH)
qed

text \<open>
  Claim C4 fails on the client's own requests, where the package drops undefined keys
  of an update (Mongoose 6 and later).  Alice adds a task, completes it (toggleComplete)
  and edits its title (saveEdit, which sends the title and no completed field): the
  stored task then has completed true and completedAt null, against the invariant.  The
  update object means to write the flag and the timestamp together, and this request
  writes only the timestamp.  The invariant also fails when the completed field is the
  string \<open>false\<close>: the stored task has completed false and a completedAt.
\<close>

theorem completion_invariant_broken:
  "database (run testLib
     [(1, asUser ''alice'' PostTasks (titled ''Buy milk'')),
      (5, asUser ''alice'' (PutTask ''t0'') (titled ''Buy milk''\<lparr>body_completed := JBool True\<rparr>)),
      (9, asUser ''alice'' (PutTask ''t0'') (titled ''Buy oat milk''))]
     emptyServer)
   = \<lparr>tasks = [\<lparr>task_id = 0, title = ''Buy oat milk'', completed = Some True,
                completedAt = None, userId = ''auth0|alice''\<rparr>],
      profiles = [], nextId = 1\<rparr>
   \<and> \<not> completionInv \<lparr>task_id = 0, title = ''Buy oat milk'', completed = Some True,
                completedAt = None, userId = ''auth0|alice''\<rparr>
   \<and> database (run testLib
     [(1, asUser ''alice'' PostTasks (titled ''Buy milk'')),
      (2, asUser ''alice'' (PutTask ''t0'') (titled ''Buy milk''\<lparr>body_completed := JStr ''false''\<rparr>))]
     emptyServer)
   = \<lparr>tasks = [\<lparr>task_id = 0, title = ''Buy milk'', completed = Some False,
                completedAt = Some 2, userId = ''auth0|alice''\<rparr>],
      profiles = [], nextId = 1\<rparr>
   \<and> \<not> completionInv \<lparr>task_id = 0, title = ''Buy milk'', completed = Some False,
                completedAt = Some 2, userId = ''auth0|alice''\<rparr>"
  by (simp add: eval_app eval_title postTask_def putTask_def applyTaskUpdate_def
      setCompleted_def emptyDb_def completionInv_def)

section \<open>Listing the tasks\<close>

text \<open>What the two facts below need of the list is that its keys are sorted: they hold
  of every order that MongoDB may give to tasks with equal keys.\<close>

lemma sorted_key_completed:
  assumes "sorted (map sortKey xs)" and "list_all (\<lambda>t. completed t = Some True) xs"
  shows "sorted (map completedAt xs)"
  using assms
proof (induction xs)
  case Nil
  then show ?case by simp
next
  case (Cons x xs)
  have "completedAt x \<le> completedAt y" if "y \<in> set xs" for y
  proof -
    have "sortKey x \<le> sortKey y" and "completed x = Some True" and "completed y = Some True"
      using Cons.prems that by (auto simp: list_all_iff)
    then show ?thesis by (simp add: sortKey_def)
  qed
  with Cons show ?case by simp
qed

lemma sorted_key_active_first:
  assumes "sorted (map sortKey r)" and "i < length r" and "j < length r"
    and "completed (r ! i) = Some False" and "completed (r ! j) = Some True"
  shows "i < j"
proof (rule ccontr)
  assume "\<not> i < j"
  then have "j \<le> i" by simp
  then have "map sortKey r ! j \<le> map sortKey r ! i"
    using assms(1,2) by (intro sorted_nth_mono) simp_all
  then show False
    using assms(2-5) by (simp add: sortKey_def)
qed

text \<open>
  Claim C5.  GET /tasks answers 200 with a list that holds exactly the caller's tasks
  (as a multiset); in it every task with completed false stands before every task with
  completed true, and the tasks with completed true are in ascending order of
  completedAt (null, the least value, first).
\<close>

theorem getTasks_order:
  "\<exists>r. getTasks u s = (Response 200 (TaskList r), s)
     \<and> mset r = mset (filter (\<lambda>t. userId t = sub u) (tasks s))
     \<and> (\<forall>i j. i < length r \<and> j < length r
            \<and> completed (r ! i) = Some False \<and> completed (r ! j) = Some True \<longrightarrow> i < j)
     \<and> sorted (map completedAt (filter (\<lambda>t. completed t = Some True) r))"
proof -
  let ?r = "sort_key sortKey (filter (\<lambda>t. userId t = sub u) (tasks s))"
  have s: "sorted (map sortKey ?r)" by (rule sorted_sort_key)
  have "sorted (map sortKey (filter (\<lambda>t. completed t = Some True) ?r))"
    using s by (rule sorted_filter)
  then have "sorted (map completedAt (filter (\<lambda>t. completed t = Some True) ?r))"
    by (rule sorted_key_completed) (simp add: list_all_iff)
  moreover have "mset ?r = mset (filter (\<lambda>t. userId t = sub u) (tasks s))"
    by simp
  moreover have "getTasks u s = (Response 200 (TaskList ?r), s)"
    by (simp add: getTasks_def)
  ultimately show ?thesis
    using sorted_key_active_first [OF s] by blast
qed

theorem getTasks_order_witness:
  "getTasks alice mixedDb =
     (Response 200 (TaskList
        [\<lparr>task_id = 1, title = ''Buy milk'', completed = Some False,
          completedAt = None, userId = ''auth0|alice''\<rparr>,
         \<lparr>task_id = 4, title = ''Book flights'', completed = Some False,
          completedAt = None, userId = ''auth0|alice''\<rparr>,
         \<lparr>task_id = 3, title = ''Call home'', completed = Some True,
          completedAt = Some 10, userId = ''auth0|alice''\<rparr>,
         \<lparr>task_id = 0, title = ''Pay rent'', completed = Some True,
          completedAt = Some 30, userId = ''auth0|alice''\<rparr>]), mixedDb)
   \<and> (\<exists>r. fst (getTasks alice mixedDb) = Response 200 (TaskList r)
        \<and> mset r = mset (filter (\<lambda>t. userId t = sub alice) (tasks mixedDb))
        \<and> sorted (map completedAt (filter (\<lambda>t. completed t = Some True) r)))"
proof -
  have "getTasks alice mixedDb =
     (Response 200 (TaskList
        [\<lparr>task_id = 1, title = ''Buy milk'', completed = Some False,
          completedAt = None, userId = ''auth0|alice''\<rparr>,
         \<lparr>task_id = 4, title = ''Book flights'', completed = Some False,
          completedAt = None, userId = ''auth0|alice''\<rparr>,
         \<lparr>task_id = 3, title = ''Call home'', completed = Some True,
          completedAt = Some 10, userId = ''auth0|alice''\<rparr>,
         \<lparr>task_id = 0, title = ''Pay rent'', completed = Some True,
          completedAt = Some 30, userId = ''auth0|alice''\<rparr>]), mixedDb)"
    by (simp add: getTasks_def mixedDb_def alice_def sortKey_def)
  moreover have "\<exists>r. fst (getTasks alice mixedDb) = Response 200 (TaskList r)
        \<and> mset r = mset (filter (\<lambda>t. userId t = sub alice) (tasks mixedDb))
        \<and> sorted (map completedAt (filter (\<lambda>t. completed t = Some True) r))"
    using getTasks_order [of alice mixedDb] by force
  ultimately show ?thesis by (rule conjI)
qed

section \<open>Updating the profile\<close>

lemma profile_userId_applyProfileUpdate [simp]:
  "profile_userId (applyProfileUpdate L now b q p) = profile_userId p"
  by (simp add: applyProfileUpdate_def)

lemma fst_upsertProfile:
  "fst (upsertProfile L now uid b q ps)
     = applyProfileUpdate L now b q
         (case find (\<lambda>p. profile_userId p = uid) ps of
            Some p \<Rightarrow> p | None \<Rightarrow> insertedProfile L now uid)"
  by (simp add: upsertProfile_def split: option.splits)

lemma find_upsertProfile:
  "find (\<lambda>p. profile_userId p = uid) (snd (upsertProfile L now uid b q ps))
     = Some (fst (upsertProfile L now uid b q ps))"
  by (cases "find (\<lambda>p. profile_userId p = uid) ps")
    (simp_all add: upsertProfile_def find_snoc find_updateFirst insertedProfile_def)

lemma others_upsertProfile:
  "filter (\<lambda>p. profile_userId p \<noteq> uid) (snd (upsertProfile L now uid b q ps))
     = filter (\<lambda>p. profile_userId p \<noteq> uid) ps"
  by (cases "find (\<lambda>p. profile_userId p = uid) ps")
    (simp_all add: upsertProfile_def filter_updateFirst_others insertedProfile_def)

lemma putProfile_rejected:
  "rejected L b \<Longrightarrow> status (fst (putProfile L now u b s)) = 400 \<and> snd (putProfile L now u b s) = s"
  by (auto simp: rejected_def putProfile_def)

lemma putProfile_uncastable:
  assumes "\<not> rejected L b" and "preferencesUpdate L (body_preferences b) = None"
  shows "putProfile L now u b s = (internalError, s)"
  using assms by (auto simp: rejected_def putProfile_def)

lemma putProfile_accepted:
  assumes "\<not> rejected L b" and "preferencesUpdate L (body_preferences b) = Some q"
  shows "putProfile L now u b s =
     (Response 200 (ProfileDoc (hydrate now (fst (upsertProfile L now (sub u) b q (profiles s))))),
      s\<lparr>profiles := snd (upsertProfile L now (sub u) b q (profiles s))\<rparr>)"
  using assms by (auto simp: rejected_def putProfile_def split: prod.splits)

text \<open>A document that has every path with a default is the document Mongoose builds
  from it.\<close>

lemma hydrate_complete:
  assumes "preferences p = Some q" and "theme q \<noteq> Missing" and "emailNotifications q \<noteq> Missing"
    and "createdAt p = Some c" and "updatedAt p = Some d"
  shows "hydrate now p = p"
proof -
  have t: "withDefault ''dark'' (theme q) = theme q"
    using assms(2) by (cases "theme q") (simp_all add: withDefault_def)
  have e: "withDefault True (emailNotifications q) = emailNotifications q"
    using assms(3) by (cases "emailNotifications q") (simp_all add: withDefault_def)
  have q: "\<lparr>theme = theme q, emailNotifications = emailNotifications q\<rparr> = q"
    by simp
  have "hydrate now p = p\<lparr>preferences := Some q, createdAt := Some c, updatedAt := Some d\<rparr>"
    by (simp add: hydrate_def assms(1,4,5) t e q)
  also have "\<dots> = p"
    using assms(1,4,5) by (cases p) simp
  finally show ?thesis .
qed

text \<open>
  Claim C7, as amended.  When a field among displayName, bio and avatar that the payload
  of PUT /profile has fails its validation, the answer is 400 and the database is
  unchanged.  Otherwise, when the preferences field is truthy and Mongoose cannot cast
  it to the schema, the answer is 500 and the database is unchanged.  Otherwise the
  request upserts and the answer is 200 with the caller's profile as it is stored
  afterwards, with the schema's defaults for the paths it does not have; the stored
  profile is the one stored before (or, for a user without one, the inserted document)
  with the update applied, and the profiles of other users and the tasks are unchanged.
\<close>

theorem putProfile_outcome:
  "(rejected L b \<longrightarrow>
      status (fst (putProfile L now u b s)) = 400 \<and> snd (putProfile L now u b s) = s)
   \<and> (\<not> rejected L b \<and> truthy (body_preferences b)
        \<and> castPreferences L (body_preferences b) = None \<longrightarrow>
      putProfile L now u b s = (internalError, s))
   \<and> (\<not> rejected L b
        \<and> \<not> (truthy (body_preferences b) \<and> castPreferences L (body_preferences b) = None) \<longrightarrow>
      (\<exists>p q. find (\<lambda>x. profile_userId x = sub u) (profiles (snd (putProfile L now u b s))) = Some p
         \<and> fst (putProfile L now u b s) = Response 200 (ProfileDoc (hydrate now p))
         \<and> preferencesUpdate L (body_preferences b) = Some q
         \<and> p = applyProfileUpdate L now b q
                 (case find (\<lambda>x. profile_userId x = sub u) (profiles s) of
                    Some x \<Rightarrow> x | None \<Rightarrow> insertedProfile L now (sub u)))
      \<and> filter (\<lambda>x. profile_userId x \<noteq> sub u) (profiles (snd (putProfile L now u b s)))
           = filter (\<lambda>x. profile_userId x \<noteq> sub u) (profiles s)
      \<and> tasks (snd (putProfile L now u b s)) = tasks s)"
proof -
  have none: "preferencesUpdate L (body_preferences b) = None"
    if "truthy (body_preferences b)" and "castPreferences L (body_preferences b) = None"
    using that by (simp add: preferencesUpdate_def)
  have some: "\<exists>q. preferencesUpdate L (body_preferences b) = Some q"
    if "\<not> (truthy (body_preferences b) \<and> castPreferences L (body_preferences b) = None)"
    using that by (auto simp: preferencesUpdate_def split: option.splits)
  show ?thesis
    using none some
    by (auto simp: putProfile_rejected putProfile_uncastable putProfile_accepted
        find_upsertProfile others_upsertProfile fst_upsertProfile)
qed

theorem putProfile_outcome_witness:
  "status (fst (putProfile testLib 7 alice (noBody\<lparr>body_displayName := JStr ''   ''\<rparr>) emptyDb)) = 400
   \<and> snd (putProfile testLib 7 alice (noBody\<lparr>body_displayName := JStr ''   ''\<rparr>) emptyDb) = emptyDb
   \<and> putProfile testLib 7 alice
        (noBody\<lparr>body_preferences := JObj [(''theme'', JArr)]\<rparr>) emptyDb = (internalError, emptyDb)
   \<and> fst (putProfile testLib 7 alice
        (noBody\<lparr>body_displayName := JStr ''Alice A.'', body_bio := JStr ''Lists <everything>'',
                body_preferences := JObj [(''theme'', JStr ''light'')]\<rparr>) emptyDb)
      = Response 200 (ProfileDoc \<lparr>profile_userId = ''auth0|alice'', displayName = Some ''Alice A.'',
          avatar = None, bio = Some ''Lists everything'',
          preferences = Some \<lparr>theme = Value ''light'', emailNotifications = Value True\<rparr>,
          createdAt = Some 7, updatedAt = Some 7\<rparr>)
   \<and> find (\<lambda>x. profile_userId x = sub alice) (profiles (snd (putProfile testLib 7 alice
        (noBody\<lparr>body_displayName := JStr ''Alice A.'', body_bio := JStr ''Lists <everything>'',
                body_preferences := JObj [(''theme'', JStr ''light'')]\<rparr>) emptyDb)))
      = Some \<lparr>profile_userId = ''auth0|alice'', displayName = Some ''Alice A.'',
          avatar = None, bio = Some ''Lists everything'',
          preferences = Some \<lparr>theme = Value ''light'', emailNotifications = Missing\<rparr>,
          createdAt = Some 7, updatedAt = Some 7\<rparr>"
proof -
  let ?bad = "noBody\<lparr>body_displayName := JStr ''   ''\<rparr>"
  let ?odd = "noBody\<lparr>body_preferences := JObj [(''theme'', JArr)]\<rparr>"
  let ?good = "noBody\<lparr>body_displayName := JStr ''Alice A.'', body_bio := JStr ''Lists <everything>'',
                body_preferences := JObj [(''theme'', JStr ''light'')]\<rparr>"
  let ?q = "\<lparr>theme = Value ''light'', emailNotifications = Missing\<rparr>"
  have bad: "rejected testLib ?bad"
    by (simp add: rejected_def validateDisplayName_def noBody_def trim_def isWhiteSpace_def)
  have odd: "\<not> rejected testLib ?odd \<and> truthy (body_preferences ?odd)
      \<and> castPreferences testLib (body_preferences ?odd) = None"
    by (simp add: rejected_def noBody_def castPreferences_def castString_def getField_def
        castBooleanField_def)
  have good: "\<not> rejected testLib ?good"
    by (simp add: rejected_def validateDisplayName_def validateBio_def noBody_def trim_def
        isWhiteSpace_def)
  have cast: "castPreferences testLib (body_preferences ?good) = Some ?q"
    by (simp add: castPreferences_def castString_def getField_def castBooleanField_def)
  then have upd: "preferencesUpdate testLib (body_preferences ?good) = Some (Some ?q)"
    by (simp add: preferencesUpdate_def)
  have p: "applyProfileUpdate testLib 7 ?good (Some ?q)
       (case find (\<lambda>x. profile_userId x = sub alice) (profiles emptyDb) of
          Some x \<Rightarrow> x | None \<Rightarrow> insertedProfile testLib 7 (sub alice))
     = \<lparr>profile_userId = ''auth0|alice'', displayName = Some ''Alice A.'',
          avatar = None, bio = Some ''Lists everything'', preferences = Some ?q,
          createdAt = Some 7, updatedAt = Some 7\<rparr>"
    by (simp add: applyProfileUpdate_def insertedProfile_def emptyDb_def alice_def eval_title)
  have h: "hydrate 7 \<lparr>profile_userId = ''auth0|alice'', displayName = Some ''Alice A.'',
          avatar = None, bio = Some ''Lists everything'', preferences = Some ?q,
          createdAt = Some 7, updatedAt = Some 7\<rparr>
     = \<lparr>profile_userId = ''auth0|alice'', displayName = Some ''Alice A.'',
          avatar = None, bio = Some ''Lists everything'',
          preferences = Some \<lparr>theme = Value ''light'', emailNotifications = Value True\<rparr>,
          createdAt = Some 7, updatedAt = Some 7\<rparr>"
    by (simp add: hydrate_def withDefault_def)
  note bad_case = putProfile_outcome [of testLib ?bad 7 alice emptyDb, THEN conjunct1, THEN mp, OF bad]
  note odd_case = putProfile_outcome [of testLib ?odd 7 alice emptyDb,
      THEN conjunct2, THEN conjunct1, THEN mp, OF odd]
  have nc: "\<not> (truthy (body_preferences ?good) \<and> castPreferences testLib (body_preferences ?good) = None)"
    using cast by simp
  note good_case = putProfile_outcome [of testLib ?good 7 alice emptyDb,
      THEN conjunct2, THEN conjunct2, THEN mp, OF conjI [OF good nc], THEN conjunct1]
  from good_case obtain x y where
    x: "find (\<lambda>x. profile_userId x = sub alice)
          (profiles (snd (putProfile testLib 7 alice ?good emptyDb))) = Some x"
      "fst (putProfile testLib 7 alice ?good emptyDb) = Response 200 (ProfileDoc (hydrate 7 x))"
      "preferencesUpdate testLib (body_preferences ?good) = Some y"
      "x = applyProfileUpdate testLib 7 ?good y
                 (case find (\<lambda>x. profile_userId x = sub alice) (profiles emptyDb) of
                    Some x \<Rightarrow> x | None \<Rightarrow> insertedProfile testLib 7 (sub alice))"
    by (elim exE conjE) (rule that, assumption+)
  from x(3) upd have y: "y = Some ?q" by simp
  have x': "x = \<lparr>profile_userId = ''auth0|alice'', displayName = Some ''Alice A.'',
          avatar = None, bio = Some ''Lists everything'', preferences = Some ?q,
          createdAt = Some 7, updatedAt = Some 7\<rparr>"
    unfolding x(4) y by (rule p)
  show ?thesis
    using bad_case odd_case x(1,2) by (simp add: x' h)
qed

text \<open>
  Claim C7 as stated fails: a payload with a valid display name and preferences whose
  emailNotifications is the string \<open>maybe\<close> has no field among displayName, bio and
  avatar that fails its validation, and still is not upserted: the cast of the update
  fails and the answer is 500.
\<close>

theorem putProfile_uncastable_preferences:
  "\<not> rejected testLib
        (noBody\<lparr>body_displayName := JStr ''Alice A.'',
                body_preferences := JObj [(''emailNotifications'', JStr ''maybe'')]\<rparr>)
   \<and> putProfile testLib 7 alice
        (noBody\<lparr>body_displayName := JStr ''Alice A.'',
                body_preferences := JObj [(''emailNotifications'', JStr ''maybe'')]\<rparr>) emptyDb
      = (Response 500 (Error ''Internal server error''), emptyDb)"
  by (simp add: rejected_def putProfile_def preferencesUpdate_def castPreferences_def
      castString_def castBooleanField_def getField_def validateDisplayName_def
      internalError_def noBody_def trim_def isWhiteSpace_def)

text \<open>
  Claim C6 fails in PUT /profile, which validates the raw fields and sanitizes them
  afterwards (the task routes sanitize first).  The display name \<open><>\<close> passes
  validation and is stored as the empty string; and 50 letters followed by an angle
  bracket are rejected, although the sanitized text, 50 letters, is valid.
\<close>

theorem putProfile_validates_raw_displayName:
  "validateDisplayName (JStr ''<>'')
   \<and> putProfile testLib 7 alice (noBody\<lparr>body_displayName := JStr ''<>''\<rparr>) emptyDb
     = (Response 200 (ProfileDoc \<lparr>profile_userId = ''auth0|alice'', displayName = Some [],
          avatar = None, bio = None, preferences = Some defaultPreferences,
          createdAt = Some 7, updatedAt = Some 7\<rparr>),
        \<lparr>tasks = [], profiles = [\<lparr>profile_userId = ''auth0|alice'', displayName = Some [],
          avatar = None, bio = None, preferences = Some defaultPreferences,
          createdAt = Some 7, updatedAt = Some 7\<rparr>], nextId = 0\<rparr>)
   \<and> validateDisplayName (JStr (sanitizeInput (xss testLib) (JStr (replicate 50 CHR ''a'' @ ''<''))))
   \<and> putProfile testLib 7 alice (noBody\<lparr>body_displayName := JStr (replicate 50 CHR ''a'' @ ''<'')\<rparr>) emptyDb
     = (Response 400 (Error ''Display name must be 1-50 characters long''), emptyDb)"
  by (simp add: putProfile_def upsertProfile_def applyProfileUpdate_def insertedProfile_def
      preferencesUpdate_def hydrate_def withDefault_def defaultPreferences_def
      validateDisplayName_def validateBio_def validateAvatarUrl_def alice_def emptyDb_def eval_title)

section \<open>Fetching the profile\<close>

lemma getProfile_found:
  assumes "find (\<lambda>p. profile_userId p = sub u) (profiles s) = Some p"
  shows "getProfile L now u s = (Response 200 (ProfileDoc (hydrate now p)), s)"
  using assms by (simp add: getProfile_def)

text \<open>
  Claim C8.  For a user (with a subject identifier) who has no profile, the first
  GET /profile stores one profile, with the display name derived from the identity and
  the generated avatar, and answers with it; the second GET /profile answers with the
  same profile and stores nothing, so the user has exactly one profile afterwards.
\<close>

theorem getProfile_twice:
  assumes "find (\<lambda>p. profile_userId p = sub u) (profiles s) = None" and "sub u \<noteq> []"
  shows "\<exists>p. getProfile L n1 u s = (Response 200 (ProfileDoc p), s\<lparr>profiles := profiles s @ [p]\<rparr>)
     \<and> getProfile L n2 u (snd (getProfile L n1 u s))
         = (Response 200 (ProfileDoc p), snd (getProfile L n1 u s))
     \<and> displayName p = Some (defaultDisplayName u)
     \<and> avatar p = Some (generateShapesAvatar (sub u))
     \<and> profile_userId p = sub u
     \<and> length (filter (\<lambda>q. profile_userId q = sub u)
          (profiles (snd (getProfile L n2 u (snd (getProfile L n1 u s)))))) = 1"
proof -
  let ?p = "\<lparr>profile_userId = sub u,
             displayName = Some (defaultDisplayName u),
             avatar = Some (generateShapesAvatar (sub u)),
             bio = None,
             preferences = Some defaultPreferences,
             createdAt = Some n1,
             updatedAt = Some n1\<rparr>"
  have none: "filter (\<lambda>q. profile_userId q = sub u) (profiles s) = []"
    using assms(1) by (auto simp: find_None_iff filter_empty_conv)
  have first: "getProfile L n1 u s = (Response 200 (ProfileDoc ?p), s\<lparr>profiles := profiles s @ [?p]\<rparr>)"
    using assms by (simp add: getProfile_def Let_def)
  have h: "hydrate n2 ?p = ?p"
    by (rule hydrate_complete [where q = defaultPreferences]) (simp_all add: defaultPreferences_def)
  have "find (\<lambda>p. profile_userId p = sub u) (profiles (s\<lparr>profiles := profiles s @ [?p]\<rparr>)) = Some ?p"
    using assms(1) by (simp add: find_snoc)
  then have "getProfile L n2 u (s\<lparr>profiles := profiles s @ [?p]\<rparr>)
      = (Response 200 (ProfileDoc (hydrate n2 ?p)), s\<lparr>profiles := profiles s @ [?p]\<rparr>)"
    by (rule getProfile_found)
  then have second: "getProfile L n2 u (snd (getProfile L n1 u s))
      = (Response 200 (ProfileDoc ?p), snd (getProfile L n1 u s))"
    by (simp add: first h)
  show ?thesis
    by (rule exI [of _ ?p]) (simp add: second, simp add: first none)
qed

theorem getProfile_twice_witness:
  "getProfile testLib 3 bob emptyDb =
     (Response 200 (ProfileDoc \<lparr>profile_userId = ''auth0|bob'',
          displayName = Some ''bob@example.com'',
          avatar = Some ''https://api.dicebear.com/7.x/shapes/svg?seed=YXV0aDB8Ym&backgroundColor=0f0f23&primaryColor=6366f1'',
          bio = None, preferences = Some defaultPreferences,
          createdAt = Some 3, updatedAt = Some 3\<rparr>),
      \<lparr>tasks = [], profiles = [\<lparr>profile_userId = ''auth0|bob'',
          displayName = Some ''bob@example.com'',
          avatar = Some ''https://api.dicebear.com/7.x/shapes/svg?seed=YXV0aDB8Ym&backgroundColor=0f0f23&primaryColor=6366f1'',
          bio = None, preferences = Some defaultPreferences,
          createdAt = Some 3, updatedAt = Some 3\<rparr>], nextId = 0\<rparr>)
   \<and> getProfile testLib 4 bob (snd (getProfile testLib 3 bob emptyDb))
       = (fst (getProfile testLib 3 bob emptyDb), snd (getProfile testLib 3 bob emptyDb))
   \<and> length (filter (\<lambda>q. profile_userId q = sub bob)
          (profiles (snd (getProfile testLib 4 bob (snd (getProfile testLib 3 bob emptyDb)))))) = 1"
proof -
  have 1: "find (\<lambda>p. profile_userId p = sub bob) (profiles emptyDb) = None"
    by (simp add: emptyDb_def)
  have 2: "sub bob \<noteq> []" by (simp add: bob_def)
  have "getProfile testLib 3 bob emptyDb =
     (Response 200 (ProfileDoc \<lparr>profile_userId = ''auth0|bob'',
          displayName = Some ''bob@example.com'',
          avatar = Some ''https://api.dicebear.com/7.x/shapes/svg?seed=YXV0aDB8Ym&backgroundColor=0f0f23&primaryColor=6366f1'',
          bio = None, preferences = Some defaultPreferences,
          createdAt = Some 3, updatedAt = Some 3\<rparr>),
      \<lparr>tasks = [], profiles = [\<lparr>profile_userId = ''auth0|bob'',
          displayName = Some ''bob@example.com'',
          avatar = Some ''https://api.dicebear.com/7.x/shapes/svg?seed=YXV0aDB8Ym&backgroundColor=0f0f23&primaryColor=6366f1'',
          bio = None, preferences = Some defaultPreferences,
          createdAt = Some 3, updatedAt = Some 3\<rparr>], nextId = 0\<rparr>)"
    by (simp add: getProfile_def Let_def emptyDb_def bob_def defaultDisplayName_def
        generateShapesAvatar_def isAlphaNum_def utf8_def base64Digit_def)
  moreover have "getProfile testLib 4 bob (snd (getProfile testLib 3 bob emptyDb))
       = (fst (getProfile testLib 3 bob emptyDb), snd (getProfile testLib 3 bob emptyDb))
   \<and> length (filter (\<lambda>q. profile_userId q = sub bob)
          (profiles (snd (getProfile testLib 4 bob (snd (getProfile testLib 3 bob emptyDb)))))) = 1"
    using getProfile_twice [OF 1 2, of testLib 3 4] by auto
  ultimately show ?thesis by (rule conjI)
qed

section \<open>Requests without a bearer token\<close>

lemma jwtCheck_no_bearer:
  assumes "\<And>h. authHeader = Some h \<Longrightarrow> \<not> startsWith h ''Bearer ''"
  shows "jwtCheck L authHeader = Inl (Response 401 (Error ''Access token is required''))"
  using assms by (cases authHeader) (simp_all add: jwtCheck_def)

lemma limiter_overLimit: "fst (limiter now addr h) = (\<not> overLimit now addr h)"
  by (auto simp: limiter_def overLimit_def maxRequests_def split: option.splits)

text \<open>
  Claim C9, as amended.  Take a request to a protected route whose Authorization header
  is absent, or does not begin with \<open>Bearer \<close>.  The handler of the route does not run
  and the database is unchanged.  The answer is 500 when the body parser raises an
  error, 429 when the client address is over the rate limit, and 401, from
  \<open>jwtCheck\<close>, in every other case.
\<close>

theorem unauthenticated_request_outcome:
  assumes "protected (req_route req)"
    and "\<forall>h. authorization req = Some h \<longrightarrow> \<not> startsWith h ''Bearer ''"
  shows "database (snd (app L now req S)) = database S
     \<and> fst (app L now req S) =
         (if req_body req = None then internalError
          else if overLimit now (ip req) (hits S) then tooManyRequests
          else Response 401 (Error ''Access token is required''))"
proof -
  have "jwtCheck L (authorization req) = Inl (Response 401 (Error ''Access token is required''))"
    using assms(2) by (intro jwtCheck_no_bearer) simp
  then have "routes L now (req_route req) (authorization req) b s
      = (Response 401 (Error ''Access token is required''), s)" for b s
    by (simp add: routes_protected [OF assms(1)])
  then show ?thesis
    using limiter_overLimit [of now "ip req" "hits S"]
    by (auto simp: app_def split: option.splits prod.splits)
qed

theorem unauthenticated_request_outcome_witness:
  "database (snd (app testLib 9 (anonymous (PutTask ''t0'')) \<lparr>database = aliceDb, hits = Map.empty\<rparr>))
     = aliceDb
   \<and> fst (app testLib 9 (anonymous (PutTask ''t0'')) \<lparr>database = aliceDb, hits = Map.empty\<rparr>)
     = Response 401 (Error ''Access token is required'')
   \<and> fst (app testLib 9 ((anonymous (DeleteTask ''t0''))\<lparr>authorization := Some ''Basic alice''\<rparr>)
          \<lparr>database = aliceDb, hits = Map.empty\<rparr>)
     = Response 401 (Error ''Access token is required'')"
proof -
  let ?r1 = "anonymous (PutTask ''t0'')"
  let ?r2 = "(anonymous (DeleteTask ''t0''))\<lparr>authorization := Some ''Basic alice''\<rparr>"
  let ?S = "\<lparr>database = aliceDb, hits = Map.empty\<rparr>"
  have p1: "protected (req_route ?r1)" and p2: "protected (req_route ?r2)"
    by (simp_all add: protected_def anonymous_def)
  have h1: "\<forall>h. authorization ?r1 = Some h \<longrightarrow> \<not> startsWith h ''Bearer ''"
    by (simp add: anonymous_def)
  have h2: "\<forall>h. authorization ?r2 = Some h \<longrightarrow> \<not> startsWith h ''Bearer ''"
    by (simp add: startsWith_def)
  have b1: "req_body ?r1 \<noteq> None" and b2: "req_body ?r2 \<noteq> None"
    by (simp_all add: anonymous_def)
  have l1: "\<not> overLimit 9 (ip ?r1) (hits ?S)" and l2: "\<not> overLimit 9 (ip ?r2) (hits ?S)"
    by (simp_all add: overLimit_def)
  note first = unauthenticated_request_outcome [OF p1 h1, of testLib 9 ?S,
      unfolded if_not_P [OF b1] if_not_P [OF l1]]
  note second = unauthenticated_request_outcome [OF p2 h2, of testLib 9 ?S,
      unfolded if_not_P [OF b2] if_not_P [OF l2]]
  show ?thesis
    using first second by simp
qed

text \<open>Requests without a header from the address of the examples: each is counted,
  whatever its answer.\<close>

lemma hits_app:
  assumes "req_body req = Some b"
  shows "hits (snd (app L now req S)) = snd (limiter now (ip req) (hits S))"
  using assms by (simp add: app_def split: prod.splits)

lemma hits_run_anonymous:
  assumes "hits S ''203.0.113.7'' = Some (n, resetTime)" and "list_all (\<lambda>t. t < resetTime) ts"
  shows "hits (run L (map (\<lambda>t. (t, anonymous r)) ts) S) ''203.0.113.7''
           = Some (n + length ts, resetTime)"
  using assms
proof (induction ts arbitrary: S n)
  case Nil
  then show ?case by simp
next
  case (Cons t ts)
  have "hits (snd (app L t (anonymous r) S)) ''203.0.113.7'' = Some (Suc n, resetTime)"
    using Cons.prems by (simp add: hits_app anonymous_def limiter_def)
  moreover have "list_all (\<lambda>t. t < resetTime) ts"
    using Cons.prems by simp
  ultimately have "hits (run L (map (\<lambda>t. (t, anonymous r)) ts) (snd (app L t (anonymous r) S)))
      ''203.0.113.7'' = Some (Suc n + length ts, resetTime)"
    by (rule Cons.IH)
  then show ?case by simp
qed

lemma app_over_limit:
  assumes "req_body req = Some b" and "overLimit now (ip req) (hits S)"
  shows "fst (app L now req S) = tooManyRequests"
  using assms limiter_overLimit [of now "ip req" "hits S"]
  by (auto simp: app_def split: prod.splits)

text \<open>
  Claim C9 as stated fails: of 31 requests without an Authorization header that one
  address sends to GET /tasks within a minute, the last is answered 429, not 401; and
  such a request with a body that the parser rejects is answered 500.
\<close>

theorem unauthenticated_request_over_limit:
  "fst (app testLib 31 (anonymous GetTasks)
         (run testLib (map (\<lambda>t. (t, anonymous GetTasks)) [1..<31]) emptyServer))
     = Response 429 (Text ''Too many requests from this IP, please try again later.'')
   \<and> fst (app testLib 1 ((anonymous PostTasks)\<lparr>req_body := None\<rparr>) emptyServer)
     = Response 500 (Error ''Internal server error'')"
proof -
  let ?S1 = "snd (app testLib 1 (anonymous GetTasks) emptyServer)"
  have one: "hits ?S1 ''203.0.113.7'' = Some (1, 60001)"
    by (simp add: hits_app anonymous_def limiter_def windowMs_def emptyServer_def)
  have "[1..<31] = 1 # [2..<31]"
    by (simp add: upt_conv_Cons)
  then have "run testLib (map (\<lambda>t. (t, anonymous GetTasks)) [1..<31]) emptyServer
      = run testLib (map (\<lambda>t. (t, anonymous GetTasks)) [2..<31]) ?S1"
    by simp
  moreover have "hits (run testLib (map (\<lambda>t. (t, anonymous GetTasks)) [2..<31]) ?S1) ''203.0.113.7''
      = Some (1 + length [2..<31], 60001)"
    using one by (rule hits_run_anonymous) (simp add: list_all_iff)
  ultimately have "hits (run testLib (map (\<lambda>t. (t, anonymous GetTasks)) [1..<31]) emptyServer)
      ''203.0.113.7'' = Some (30, 60001)"
    by simp
  then have "overLimit 31 (ip (anonymous GetTasks))
      (hits (run testLib (map (\<lambda>t. (t, anonymous GetTasks)) [1..<31]) emptyServer))"
    by (simp add: overLimit_def anonymous_def maxRequests_def)
  then have "fst (app testLib 31 (anonymous GetTasks)
         (run testLib (map (\<lambda>t. (t, anonymous GetTasks)) [1..<31]) emptyServer)) = tooManyRequests"
    by (intro app_over_limit [where b = noBody]) (simp_all add: anonymous_def)
  moreover have "fst (app testLib 1 ((anonymous PostTasks)\<lparr>req_body := None\<rparr>) emptyServer)
     = Response 500 (Error ''Internal server error'')"
    by (simp add: app_def internalError_def)
  ultimately show ?thesis
    by (simp add: tooManyRequests_def)
qed

end
